theory Spec2Isabelle
  imports Main "HOL-Library.Sublist"
begin

section \<open>Python strings\<close>

text \<open>
  A Python \<open>str\<close> is a sequence of Unicode code points. It is modelled as a list of
  natural numbers, one per code point; \<open>ascii\<close> turns a literal of ASCII characters into
  such a list.
\<close>

type_synonym codepoint = nat

type_synonym str = "codepoint list"

definition ascii :: "string \<Rightarrow> str" where
  "ascii s = map of_char s"

text \<open>
  The code points for which \<open>str.isspace\<close> holds, which are also the ones \<open>str.strip\<close>
  removes: tab to carriage return, the separators U+001C to U+001F, the space, U+0085,
  U+00A0, U+1680, U+2000 to U+200A, U+2028, U+2029, U+202F, U+205F and U+3000.
\<close>

definition whitespace :: "codepoint list" where
  "whitespace =
     [0x09, 0x0A, 0x0B, 0x0C, 0x0D, 0x1C, 0x1D, 0x1E, 0x1F, 0x20, 0x85, 0xA0, 0x1680,
      0x2000, 0x2001, 0x2002, 0x2003, 0x2004, 0x2005, 0x2006, 0x2007, 0x2008, 0x2009, 0x200A,
      0x2028, 0x2029, 0x202F, 0x205F, 0x3000]"

definition isspace :: "codepoint \<Rightarrow> bool" where
  "isspace c = (c \<in> set whitespace)"

definition strip :: "str \<Rightarrow> str" where
  "strip s = rev (dropWhile isspace (rev (dropWhile isspace s)))"

text \<open>\<open>w in s\<close> on two strings: \<open>w\<close> occurs in \<open>s\<close> as a contiguous run.\<close>

fun is_substring :: "str \<Rightarrow> str \<Rightarrow> bool" where
  "is_substring w [] = (w = [])"
| "is_substring w (c # cs) = (prefix w (c # cs) \<or> is_substring w cs)"

text \<open>\<open>sep.join(xs)\<close>.\<close>

fun join :: "str \<Rightarrow> str list \<Rightarrow> str" where
  "join sep [] = []"
| "join sep [x] = x"
| "join sep (x # y # ys) = x @ sep @ join sep (y # ys)"

text \<open>\<open>str(n)\<close> on an integer, as an f-string prints it: the decimal digits, U+0030 and
  following, after a minus sign for a negative number.\<close>

fun digits :: "nat \<Rightarrow> str" where
  "digits n = (if n < 10 then [48 + n] else digits (n div 10) @ [48 + n mod 10])"

definition str_int :: "int \<Rightarrow> str" where
  "str_int i = (if i < 0 then ascii ''-'' @ digits (nat (- i)) else digits (nat i))"

text \<open>The two characters of the source's literals that are not ASCII: the en dash U+2013
  and the right single quotation mark U+2019.\<close>

definition en_dash :: str where
  "en_dash = [0x2013]"

definition right_quote :: str where
  "right_quote = [0x2019]"


section \<open>Intent detection\<close>

text \<open>\<open>CallAssistant.handle_intents\<close> of \<open>twilio_webhookx.py\<close>. The three results
  are the strings the source returns.\<close>

definition confirm_triggers :: "str list" where
  "confirm_triggers =
     [ascii ''yes'', ascii ''sure'', ascii ''go ahead'', ascii ''ok'', ascii ''interested'']"

definition reject_triggers :: "str list" where
  "reject_triggers =
     [ascii ''no'', ascii ''not now'', ascii ''not interested'', ascii ''stop'', ascii ''leave me'']"

definition handle_intents :: "str \<Rightarrow> str" where
  "handle_intents user_input =
     (if list_ex (\<lambda>word. is_substring word user_input) confirm_triggers then ascii ''confirm''
      else if list_ex (\<lambda>word. is_substring word user_input) reject_triggers then ascii ''reject''
      else ascii ''unknown'')"

text \<open>\<open>VoiceAssistant.handle_intents\<close> of \<open>voice2.py\<close>: the same test on longer lists.\<close>

definition voice2_confirm_triggers :: "str list" where
  "voice2_confirm_triggers =
     [ascii ''yes'', ascii ''let's do it'', ascii ''go ahead'', ascii ''i'm ready'',
      ascii ''interested'', ascii ''please do'', ascii ''okay'', ascii ''ok'']"

definition voice2_reject_triggers :: "str list" where
  "voice2_reject_triggers =
     [ascii ''no'', ascii ''not now'', ascii ''not interested'', ascii ''leave me'',
      ascii ''don't'', ascii ''not today'']"

definition voice2_handle_intents :: "str \<Rightarrow> str" where
  "voice2_handle_intents user_input =
     (if list_ex (\<lambda>word. is_substring word user_input) voice2_confirm_triggers then ascii ''confirm''
      else if list_ex (\<lambda>word. is_substring word user_input) voice2_reject_triggers then ascii ''reject''
      else ascii ''unknown'')"


section \<open>External collaborators\<close>

text \<open>
  A Python exception is a value: a call that may raise returns \<open>exn + 'a\<close>, with \<open>Inl\<close>
  the exception. \<open>TimeoutError\<close> is what \<open>Future.result(timeout=...)\<close> raises when the
  wait runs out; every other exception carries its message.
\<close>

datatype exn = Exception str | TimeoutError

text \<open>A LangChain \<open>Document\<close>.\<close>

record doc =
  page_content :: str
  metadata :: "(str \<times> str) list"

text \<open>The calls that leave the program, in the order they are made: loading, building and
  saving the FAISS index, a knowledge-base query, a similarity search, a call of the
  Gemini model with its prompt.\<close>

datatype event =
    LoadLocal str
  | FromTexts "str list"
  | SaveLocal str
  | QueryKnowledgeBase str int
  | SimilaritySearch str int
  | GenerateContent str

text \<open>
  What the program uses at request time and does not define.
  \<^item> \<open>generate_content history prompt\<close> is \<open>model.generate_content(prompt).text\<close>. The
    model may raise, and it need not answer the same prompt twice in the same way: its
    result depends on the calls made before it, \<open>history\<close>.
  \<^item> \<open>similarity_search vs query k\<close> is \<open>vs.similarity_search(query, k=k)\<close>; it may raise.
  \<^item> \<open>unicode_lower\<close> is \<open>str.lower\<close> on a text that has a character outside ASCII, where
    the result is read from the interpreter's Unicode tables.
\<close>

record 'idx services =
  generate_content :: "event list \<Rightarrow> str \<Rightarrow> exn + str"
  similarity_search :: "'idx \<Rightarrow> str \<Rightarrow> int \<Rightarrow> exn + doc list"
  unicode_lower :: "str \<Rightarrow> str"

text \<open>\<open>str.lower\<close>: on a text of ASCII characters the letters \<open>A\<close> to \<open>Z\<close> become \<open>a\<close> to
  \<open>z\<close> and nothing else changes; on any other text the Unicode tables decide.\<close>

definition lower_ascii :: "codepoint \<Rightarrow> codepoint" where
  "lower_ascii c = (if 65 \<le> c \<and> c \<le> 90 then c + 32 else c)"

definition lower :: "'idx services \<Rightarrow> str \<Rightarrow> str" where
  "lower env s = (if list_all (\<lambda>c. c < 128) s then map lower_ascii s else unicode_lower env s)"

text \<open>
  The file system: \<open>os.path.exists(p)\<close> is \<open>fs p \<noteq> None\<close>, and \<open>'file\<close> is what a path
  holds. The libraries used when the index is set up: \<open>FAISS.load_local\<close>,
  \<open>FAISS.from_texts\<close> (one embedding call per text), the two document loaders and the
  text splitter, each of which may raise, and \<open>save_local\<close>, which writes to the file
  system and may raise after it has written some of it: \<open>save_local vs path fs\<close> is the
  outcome of the call with the file system it leaves.
\<close>

type_synonym 'file filesystem = "str \<rightharpoonup> 'file"

record ('idx, 'file) storage =
  load_local :: "'file \<Rightarrow> exn + 'idx"
  from_texts :: "str list \<Rightarrow> (str \<times> str) list list \<Rightarrow> exn + 'idx"
  save_local :: "'idx \<Rightarrow> str \<Rightarrow> 'file filesystem \<Rightarrow> (exn + unit) \<times> 'file filesystem"
  CSVLoader :: "'file \<Rightarrow> exn + doc list"
  TextLoader :: "'file \<Rightarrow> exn + doc list"
  split_documents :: "doc list \<Rightarrow> exn + doc list"


section \<open>The knowledge base: \<open>properties_rag.py\<close>\<close>

definition DATA_FILES_csv :: "str list" where
  "DATA_FILES_csv =
     [ascii ''data/dubai_property_index.csv'',
      ascii ''data/summary_transactions.csv'',
      ascii ''data/valuations1_rag.csv'',
      ascii ''data/valuation2_rag.csv'',
      ascii ''data/rents_rag.csv'',
      ascii ''data/residential_sale_index_rag.csv'',
      ascii ''data/faq_questions.csv'']"

definition DATA_FILES_txt :: "str list" where
  "DATA_FILES_txt =
     [ascii ''data/about_company.txt'',
      ascii ''data/dubai_real_estate_market_analysis.txt'',
      ascii ''data/about_the_bot.txt'']"

definition COMPANY_PROFILE_PATH :: str where
  "COMPANY_PROFILE_PATH = ascii ''data/about_company.txt''"

definition INDEX_DIR :: str where
  "INDEX_DIR = ascii ''faiss_index''"

text \<open>The object: its vector store and the text of the company profile.\<close>

record 'idx RealEstateRAG =
  vectorstore :: 'idx
  company_profile :: str

text \<open>\<open>_load_csvs\<close> and \<open>_load_txts\<close>: a missing file is skipped, and so is a file whose
  loader raises.\<close>

fun load_csvs :: "('idx, 'file) storage \<Rightarrow> 'file filesystem \<Rightarrow> str list \<Rightarrow> doc list" where
  "load_csvs st fs [] = []"
| "load_csvs st fs (path # filepaths) =
     (case fs path of
        Some f \<Rightarrow>
          (case CSVLoader st f of
             Inr loaded \<Rightarrow> loaded @ load_csvs st fs filepaths
           | Inl e \<Rightarrow> load_csvs st fs filepaths)
      | None \<Rightarrow> load_csvs st fs filepaths)"

fun load_txts :: "('idx, 'file) storage \<Rightarrow> 'file filesystem \<Rightarrow> str list \<Rightarrow> doc list" where
  "load_txts st fs [] = []"
| "load_txts st fs (path # filepaths) =
     (case fs path of
        Some f \<Rightarrow>
          (case TextLoader st f of
             Inr loaded \<Rightarrow> loaded @ load_txts st fs filepaths
           | Inl e \<Rightarrow> load_txts st fs filepaths)
      | None \<Rightarrow> load_txts st fs filepaths)"

definition load_all_documents :: "('idx, 'file) storage \<Rightarrow> 'file filesystem \<Rightarrow> doc list" where
  "load_all_documents st fs = load_csvs st fs DATA_FILES_csv @ load_txts st fs DATA_FILES_txt"

text \<open>
  \<open>_initialize_vectorstore\<close>. The result is the vector store or the exception that left
  the function, with the file system and the calls made. No call of the function is
  guarded: what the load, the splitter, the build or the save raises leaves it.
\<close>

definition initialize_vectorstore ::
  "('idx, 'file) storage \<Rightarrow> 'file filesystem \<Rightarrow> event list
     \<Rightarrow> (exn + 'idx) \<times> 'file filesystem \<times> event list" where
  "initialize_vectorstore st fs log =
     (case fs INDEX_DIR of
        Some f \<Rightarrow> (load_local st f, fs, log @ [LoadLocal INDEX_DIR])
      | None \<Rightarrow>
          (let docs = load_all_documents st fs
           in case split_documents st docs of
                Inl e \<Rightarrow> (Inl e, fs, log)
              | Inr chunks \<Rightarrow>
                  (let texts = map page_content chunks;
                       metadatas = map metadata chunks
                   in case from_texts st texts metadatas of
                        Inl e \<Rightarrow> (Inl e, fs, log @ [FromTexts texts])
                      | Inr vs \<Rightarrow>
                          (case save_local st vs INDEX_DIR fs of
                             (Inl e, fs') \<Rightarrow> (Inl e, fs', log @ [FromTexts texts, SaveLocal INDEX_DIR])
                           | (Inr u, fs') \<Rightarrow> (Inr vs, fs', log @ [FromTexts texts, SaveLocal INDEX_DIR])))))"

text \<open>\<open>_load_company_profile\<close>: the first document's text, or the empty string when the
  file is missing, the loader raises or it returns no document.\<close>

definition load_company_profile :: "('idx, 'file) storage \<Rightarrow> 'file filesystem \<Rightarrow> str" where
  "load_company_profile st fs =
     (case fs COMPANY_PROFILE_PATH of
        Some f \<Rightarrow>
          (case TextLoader st f of
             Inr (d # ds) \<Rightarrow> page_content d
           | Inr [] \<Rightarrow> []
           | Inl e \<Rightarrow> [])
      | None \<Rightarrow> [])"

text \<open>\<open>__init__\<close>.\<close>

definition RealEstateRAG_init ::
  "('idx, 'file) storage \<Rightarrow> 'file filesystem \<Rightarrow> event list
     \<Rightarrow> (exn + 'idx RealEstateRAG) \<times> 'file filesystem \<times> event list" where
  "RealEstateRAG_init st fs log =
     (case initialize_vectorstore st fs log of
        (Inl e, fs', log') \<Rightarrow> (Inl e, fs', log')
      | (Inr vs, fs', log') \<Rightarrow>
          (Inr \<lparr>vectorstore = vs, company_profile = load_company_profile st fs'\<rparr>, fs', log'))"

text \<open>The two prompts, as the f-strings build them.\<close>

definition company_prompt :: "str \<Rightarrow> str \<Rightarrow> str" where
  \<open>company_prompt profile query =
     ascii ''\<newline>You are an AI assistant at RealEstateCo.\<newline>\<newline>Use ONLY this profile:\<newline>''
     @ profile
     @ ascii ''\<newline>\<newline>User question: "'' @ query @ ascii ''"\<newline>\<newline>Guidelines:\<newline>''
     @ ascii ''- Max 3 sentences\<newline>''
     @ ascii ''- Include founder, address, contact if relevant\<newline>''
     @ ascii ''- End with: "If you'd like, I can arrange a call with our senior advisors."\<newline>''
     @ ascii ''- Never invent information\<newline>''\<close>

definition market_prompt :: "str \<Rightarrow> str \<Rightarrow> str" where
  \<open>market_prompt context query =
     ascii ''\<newline>You are an AI property advisor at RealEstateCo.\<newline>\<newline>Use this market context:\<newline>''
     @ context
     @ ascii ''\<newline>\<newline>User question: "'' @ query @ ascii ''"\<newline>\<newline>Guidelines:\<newline>''
     @ ascii ''- Keep response short (2'' @ en_dash @ ascii ''3 sentences)\<newline>''
     @ ascii ''- End with: "Shall I prepare a detailed report?"\<newline>''
     @ ascii ''- Be professional and friendly\<newline>''\<close>

definition company_profile_fallback :: str where
  "company_profile_fallback =
     ascii ''Sorry, I couldn't load the company profile. Would you like me to connect you with an advisor?''"

definition no_data_fallback :: str where
  "no_data_fallback =
     ascii ''Sorry, I couldn't find relevant data. Would you like me to connect you with an advisor?''"

text \<open>\<open>_generate_company_response\<close>. Nothing catches what the model raises.\<close>

definition generate_company_response ::
  "'idx services \<Rightarrow> 'idx RealEstateRAG \<Rightarrow> str \<Rightarrow> event list \<Rightarrow> (exn + str) \<times> event list" where
  "generate_company_response env self query log =
     (if strip (company_profile self) = [] then (Inr company_profile_fallback, log)
      else
        (let prompt = company_prompt (company_profile self) query
         in (case generate_content env log prompt of
               Inl e \<Rightarrow> Inl e
             | Inr text \<Rightarrow> Inr (strip text),
             log @ [GenerateContent prompt])))"

text \<open>
  The second half of \<open>query_knowledge_base\<close> (lines 154 to 174), the general path: the
  similarity search, the context joined from the chunks found, the no-data sentence for a
  blank context, and otherwise the model's answer to the market prompt. Nothing catches
  what the search or the model raises.
\<close>

definition general_response ::
  "'idx services \<Rightarrow> 'idx RealEstateRAG \<Rightarrow> str \<Rightarrow> int \<Rightarrow> event list \<Rightarrow> (exn + str) \<times> event list" where
  "general_response env self query k log =
     (let log1 = log @ [SimilaritySearch query k]
      in case similarity_search env (vectorstore self) query k of
           Inl e \<Rightarrow> (Inl e, log1)
         | Inr results \<Rightarrow>
             (let context = join (ascii ''\<newline>\<newline>'') (map page_content results)
              in if strip context = [] then (Inr no_data_fallback, log1)
                 else
                   (let prompt = market_prompt context query
                    in (case generate_content env log1 prompt of
                          Inl e \<Rightarrow> Inl e
                        | Inr text \<Rightarrow> Inr (strip text),
                        log1 @ [GenerateContent prompt]))))"

definition company_keywords :: "str list" where
  "company_keywords =
     [ascii ''company'', ascii ''realestateco'', ascii ''founder'', ascii ''ceo'', ascii ''head office'']"

text \<open>\<open>query_knowledge_base\<close>: the keyword test on the lower-cased query (lines 147 to
  152), then one of the two paths.\<close>

definition query_knowledge_base ::
  "'idx services \<Rightarrow> 'idx RealEstateRAG \<Rightarrow> str \<Rightarrow> int \<Rightarrow> event list \<Rightarrow> (exn + str) \<times> event list" where
  "query_knowledge_base env self query k log =
     (let log0 = log @ [QueryKnowledgeBase query k];
          query_lower = lower env query
      in if list_ex (\<lambda>keyword. is_substring keyword query_lower) company_keywords
         then generate_company_response env self query log0
         else general_response env self query k log0)"


section \<open>The telephone handler: \<open>twilio_webhookx.py\<close>\<close>

record client =
  name :: str
  location :: str
  bedrooms :: int
  bought_price :: int
  current_price :: int
  purchase_year :: int

record CallAssistant =
  call_id :: "str option"
  client_data :: client
  confirm_count :: int
  reject_count :: int
  finalized :: bool

text \<open>\<open>reset\<close>, and \<open>__init__\<close>, which stores the call identifier and resets.\<close>

definition demo_client :: client where
  "demo_client =
     \<lparr>name = ascii ''Demo Client'', location = ascii ''Sample City'', bedrooms = 2,
      bought_price = 1200000, current_price = 3300000, purchase_year = 2020\<rparr>"

definition reset :: "CallAssistant \<Rightarrow> CallAssistant" where
  "reset self = self\<lparr>client_data := demo_client, confirm_count := 0, reject_count := 0, finalized := False\<rparr>"

definition CallAssistant_init :: "str option \<Rightarrow> CallAssistant" where
  "CallAssistant_init cid =
     \<lparr>call_id = cid, client_data = demo_client, confirm_count = 0, reject_count = 0, finalized = False\<rparr>"

definition response_prompt :: "client \<Rightarrow> str \<Rightarrow> str" where
  \<open>response_prompt cd user_input =
     ascii ''\<newline>You are Alexa, an AI real estate consultant at RealEstateCo.\<newline>\<newline>Client details:\<newline>''
     @ ascii ''- '' @ str_int (bedrooms cd) @ ascii ''-bedroom in '' @ location cd @ ascii ''\<newline>''
     @ ascii ''- Bought in '' @ str_int (purchase_year cd) @ ascii '' for '' @ str_int (bought_price cd)
     @ ascii '' Dirhams\<newline>''
     @ ascii ''- Current value: '' @ str_int (current_price cd) @ ascii '' Dirhams\<newline>\<newline>''
     @ ascii ''User said: "'' @ user_input @ ascii ''"\<newline>\<newline>Guidelines:\<newline>''
     @ ascii ''- Speak naturally (2'' @ en_dash @ ascii ''3 sentences)\<newline>''
     @ ascii ''- If they hesitate, emphasize timing and opportunities\<newline>''
     @ ascii ''- If they confirm, suggest connecting with an advisor\<newline>''
     @ ascii ''- If they reject twice, politely close the call\<newline>''\<close>

definition advisor_fallback :: str where
  "advisor_fallback = ascii ''I understand. Let me connect you with an advisor who can assist further.''"

text \<open>\<open>generate_response\<close>: whatever the model raises is caught and answered with the
  advisor sentence, so the function always returns a text.\<close>

definition generate_response ::
  "'idx services \<Rightarrow> CallAssistant \<Rightarrow> str \<Rightarrow> event list \<Rightarrow> str \<times> event list" where
  "generate_response env self user_input log =
     (let prompt = response_prompt (client_data self) user_input
      in (case generate_content env log prompt of
            Inr text \<Rightarrow> strip text
          | Inl e \<Rightarrow> advisor_fallback,
          log @ [GenerateContent prompt]))"

text \<open>
  The form of a request, the verbs of the TwiML answer (\<open>Gather\<close> with the sentence it
  says), and the session table \<open>sessions\<close>, keyed by what \<open>request.form.get("CallSid")\<close>
  returns. \<open>'t\<close> is the clock's reading.
\<close>

record request =
  CallSid :: "str option"
  SpeechResult :: "str option"

datatype verb = Say str | Gather str | Hangup

record 't session =
  bot :: CallAssistant
  start :: 't

type_synonym 't sessions = "str option \<rightharpoonup> 't session"

text \<open>\<open>voice\<close>, the entry point of a call, at clock reading \<open>now\<close>.\<close>

definition voice :: "'t sessions \<Rightarrow> request \<Rightarrow> 't \<Rightarrow> verb list \<times> 't sessions" where
  "voice sessions req now =
     (let call_sid = CallSid req;
          sessions' = sessions(call_sid \<mapsto> \<lparr>bot = CallAssistant_init call_sid, start = now\<rparr>);
          b = CallAssistant_init call_sid;
          greeting =
            ascii ''Hello '' @ name (client_data b) @ ascii '', this is Alexa from RealEstateCo. ''
            @ ascii ''I'' @ right_quote @ ascii ''d like to discuss your property in ''
            @ location (client_data b) @ ascii ''. ''
            @ ascii ''Is now a good time?''
      in ([Gather greeting, Say (ascii ''Sorry, I didn't catch that. Goodbye.''), Hangup], sessions'))"

text \<open>
  The two futures of the \<open>else\<close> branch are waited for with a timeout. Whether a wait ends
  in time is not decided by the program: \<open>rag_in_time\<close> and \<open>ai_in_time\<close> say so for one
  turn. \<open>future_result\<close> is \<open>Future.result(timeout=...)\<close>: the task's value or exception,
  or \<open>TimeoutError\<close>.
\<close>

record schedule =
  rag_in_time :: bool
  ai_in_time :: bool

definition future_result :: "bool \<Rightarrow> exn + 'a \<Rightarrow> exn + 'a" where
  "future_result in_time r = (if in_time then r else Inl TimeoutError)"

text \<open>
  The \<open>else\<close> branch of \<open>process\<close> (lines 168 to 179): both tasks are submitted; the
  reply joins the two texts, and any exception of the two waits is answered by a further
  call of \<open>generate_response\<close>. The calls of the two tasks are recorded in the order of
  submission.
\<close>

definition combine_rag_gemini ::
  "'idx services \<Rightarrow> 'idx RealEstateRAG \<Rightarrow> schedule \<Rightarrow> CallAssistant \<Rightarrow> str \<Rightarrow> event list
     \<Rightarrow> str \<times> event list" where
  "combine_rag_gemini env rag sched b user_input log =
     (case query_knowledge_base env rag user_input 2 log of
        (rag_task, log1) \<Rightarrow>
          (case generate_response env b user_input log1 of
             (ai_task, log2) \<Rightarrow>
               (case future_result (rag_in_time sched) rag_task of
                  Inl e \<Rightarrow> generate_response env b user_input log2
                | Inr rag_context \<Rightarrow>
                    (case future_result (ai_in_time sched) (Inr ai_task) of
                       Inl e \<Rightarrow> generate_response env b user_input log2
                     | Inr ai_response \<Rightarrow> (ai_response @ ascii '' '' @ rag_context, log2)))))"

text \<open>The end of \<open>process\<close> (lines 181 to 188): say the reply and gather the next input.\<close>

definition keep_alive :: "str \<Rightarrow> verb list" where
  "keep_alive reply = [Say reply, Gather (ascii ''What are your thoughts?'')]"

definition session_expired :: "verb list" where
  "session_expired = [Say (ascii ''Session expired. Please call back.''), Hangup]"

definition confirm_closing :: "verb list" where
  "confirm_closing =
     [Say (ascii ''Perfect. Our senior advisor will contact you soon. Thank you for your time.''), Hangup]"

definition reject_closing :: "verb list" where
  "reject_closing = [Say (ascii ''No problem. Thanks for your time. Have a wonderful day!''), Hangup]"

definition repeat_prompt :: "verb list" where
  "repeat_prompt = [Say (ascii ''Could you repeat that?'')]"

definition confirm_interim :: str where
  "confirm_interim = ascii ''Great! Let's explore what works best for you.''"

definition reject_interim :: str where
  "reject_interim = ascii ''I understand. Let me share one strategy that might change your perspective.''"

text \<open>\<open>process\<close>: one turn of a call. It returns the answer, the session table and the
  calls made.\<close>

definition process ::
  "'idx services \<Rightarrow> 'idx RealEstateRAG \<Rightarrow> schedule \<Rightarrow> 't sessions \<Rightarrow> request \<Rightarrow> event list
     \<Rightarrow> verb list \<times> 't sessions \<times> event list" where
  "process env rag sched sessions req log =
     (let call_sid = CallSid req;
          user_input = lower env (case SpeechResult req of Some s \<Rightarrow> s | None \<Rightarrow> [])
      in case sessions call_sid of
           None \<Rightarrow> (session_expired, sessions, log)
         | Some entry \<Rightarrow>
             (let b = bot entry
              in if user_input = [] then (repeat_prompt, sessions, log)
                 else
                   (let intent = handle_intents user_input
                    in if intent = ascii ''confirm'' then
                         (let b' = b\<lparr>confirm_count := confirm_count b + 1\<rparr>
                          in if confirm_count b' \<ge> 2
                             then (confirm_closing, sessions(call_sid := None), log)
                             else (keep_alive confirm_interim,
                                   sessions(call_sid \<mapsto> entry\<lparr>bot := b'\<rparr>), log))
                       else if intent = ascii ''reject'' then
                         (let b' = b\<lparr>reject_count := reject_count b + 1\<rparr>
                          in if reject_count b' \<ge> 2
                             then (reject_closing, sessions(call_sid := None), log)
                             else (keep_alive reject_interim,
                                   sessions(call_sid \<mapsto> entry\<lparr>bot := b'\<rparr>), log))
                       else
                         (case combine_rag_gemini env rag sched b user_input log of
                            (reply, log') \<Rightarrow> (keep_alive reply, sessions, log')))))"

text \<open>A sequence of turns, each with its own schedule, in order.\<close>

fun process_all ::
  "'idx services \<Rightarrow> 'idx RealEstateRAG \<Rightarrow> 't sessions \<Rightarrow> (schedule \<times> request) list \<Rightarrow> event list
     \<Rightarrow> verb list list \<times> 't sessions \<times> event list" where
  "process_all env rag sessions [] log = ([], sessions, log)"
| "process_all env rag sessions ((sched, req) # turns) log =
     (case process env rag sched sessions req log of
        (resp, sessions', log') \<Rightarrow>
          (case process_all env rag sessions' turns log' of
             (resps, sessions'', log'') \<Rightarrow> (resp # resps, sessions'', log'')))"


section \<open>Concrete scenarios\<close>

text \<open>Inputs on which the properties below are evaluated: a model that answers every
  prompt with the same sentence and an index that finds nothing, a knowledge base with a
  company profile, a turn whose two waits end in time, and the requests of one call.\<close>

definition steady_services :: "unit services" where
  "steady_services =
     \<lparr>generate_content = (\<lambda>history prompt. Inr (ascii ''Prices are rising. '')),
      similarity_search = (\<lambda>vs query k. Inr []),
      unicode_lower = (\<lambda>s. s)\<rparr>"

definition sample_rag :: "unit RealEstateRAG" where
  "sample_rag = \<lparr>vectorstore = (), company_profile = ascii ''RealEstateCo was founded in 2010.''\<rparr>"

definition on_time :: schedule where
  "on_time = \<lparr>rag_in_time = True, ai_in_time = True\<rparr>"

definition call_start :: request where
  "call_start = \<lparr>CallSid = Some (ascii ''CA1''), SpeechResult = None\<rparr>"

definition caller_says :: "str \<Rightarrow> request" where
  "caller_says u = \<lparr>CallSid = Some (ascii ''CA1''), SpeechResult = Some u\<rparr>"

definition after_call_start :: "nat sessions" where
  "after_call_start = snd (voice Map.empty call_start 0)"

text \<open>The session table after the caller has said \<open>Yes\<close> once.\<close>

definition after_first_yes :: "nat sessions" where
  "after_first_yes =
     fst (snd (process steady_services sample_rag on_time after_call_start (caller_says (ascii ''Yes'')) []))"

text \<open>Two queries, and an index whose nearest chunks are blank: two spaces, a no-break
  space with an em space, and a line feed.\<close>

definition founder_query :: str where
  "founder_query = ascii ''Who is the founder of RealEstateCo?''"

definition villa_query :: str where
  "villa_query = ascii ''What is the rental yield trend for villas?''"

definition blank_chunks :: "doc list" where
  "blank_chunks =
     [\<lparr>page_content = ascii ''  '', metadata = []\<rparr>,
      \<lparr>page_content = [0xA0, 0x2003], metadata = []\<rparr>,
      \<lparr>page_content = ascii ''\<newline>'', metadata = []\<rparr>]"

definition blank_index_services :: "unit services" where
  "blank_index_services =
     \<lparr>generate_content = (\<lambda>history prompt. Inr (ascii ''Prices are rising. '')),
      similarity_search = (\<lambda>vs query k. Inr blank_chunks),
      unicode_lower = (\<lambda>s. s)\<rparr>"

text \<open>A model that raises on every prompt, with an index that finds one chunk.\<close>

definition villa_chunks :: "doc list" where
  "villa_chunks = [\<lparr>page_content = ascii ''Villa rents rose in 2023.'', metadata = []\<rparr>]"

definition failing_model_services :: "unit services" where
  "failing_model_services =
     \<lparr>generate_content = (\<lambda>history prompt. Inl (Exception (ascii ''quota exceeded''))),
      similarity_search = (\<lambda>vs query k. Inr villa_chunks),
      unicode_lower = (\<lambda>s. s)\<rparr>"

text \<open>A model whose first answer differs from its later ones, with an index that finds
  nothing, and a turn in which the wait for the conversational reply runs out.\<close>

fun is_generate_content :: "event \<Rightarrow> bool" where
  "is_generate_content (GenerateContent prompt) = True"
| "is_generate_content ev = False"

definition changing_model_services :: "unit services" where
  "changing_model_services =
     \<lparr>generate_content =
        (\<lambda>history prompt. if list_ex is_generate_content history
                           then Inr (ascii ''Shall we talk tomorrow?'')
                           else Inr (ascii ''Prices are rising. '')),
      similarity_search = (\<lambda>vs query k. Inr []),
      unicode_lower = (\<lambda>s. s)\<rparr>"

definition generation_late :: schedule where
  "generation_late = \<lparr>rag_in_time = True, ai_in_time = False\<rparr>"

text \<open>Libraries for the index set-up in which an index is the list of its texts and a
  file is its content, and three file systems: without an index directory, with a saved
  index, and with an index directory that cannot be loaded.\<close>

definition sample_storage :: "(str list, str) storage" where
  "sample_storage =
     \<lparr>load_local = (\<lambda>f. if f = ascii ''saved index'' then Inr [ascii ''stored chunk'']
                         else Inl (Exception (ascii ''corrupt index''))),
      from_texts = (\<lambda>texts metadatas. Inr texts),
      save_local = (\<lambda>vs path fs. (Inr (), fs(path \<mapsto> ascii ''saved index''))),
      CSVLoader = (\<lambda>f. Inr [\<lparr>page_content = f, metadata = []\<rparr>]),
      TextLoader = (\<lambda>f. Inr [\<lparr>page_content = f, metadata = []\<rparr>]),
      split_documents = (\<lambda>docs. Inr docs)\<rparr>"

definition no_index_fs :: "str filesystem" where
  "no_index_fs = [ascii ''data/about_company.txt'' \<mapsto> ascii ''RealEstateCo was founded in 2010.'']"

definition saved_index_fs :: "str filesystem" where
  "saved_index_fs = no_index_fs(ascii ''faiss_index'' \<mapsto> ascii ''saved index'')"

definition corrupt_index_fs :: "str filesystem" where
  "corrupt_index_fs = no_index_fs(ascii ''faiss_index'' \<mapsto> ascii ''not an index'')"

text \<open>Libraries in which one step of the build raises: the splitter, the embedding of the
  texts, the save.\<close>

definition failing_splitter_storage :: "(str list, str) storage" where
  "failing_splitter_storage =
     sample_storage\<lparr>split_documents := (\<lambda>docs. Inl (Exception (ascii ''cannot split'')))\<rparr>"

definition failing_embedding_storage :: "(str list, str) storage" where
  "failing_embedding_storage =
     sample_storage\<lparr>from_texts := (\<lambda>texts metadatas. Inl (Exception (ascii ''embedding quota exceeded'')))\<rparr>"

definition full_disk_storage :: "(str list, str) storage" where
  "full_disk_storage =
     sample_storage\<lparr>save_local := (\<lambda>vs path fs. (Inl (Exception (ascii ''disk full'')), fs))\<rparr>"


section \<open>Properties\<close>

subsection \<open>Strings\<close>

lemma ascii_inject [simp]: "ascii a = ascii b \<longleftrightarrow> a = b"
proof -
  have "inj (of_char :: char \<Rightarrow> nat)" by (rule injI) simp
  then show ?thesis by (simp add: ascii_def inj_map_eq_map)
qed

lemma ascii_Nil_iff [simp]: "ascii s = [] \<longleftrightarrow> s = []"
  by (simp add: ascii_def)

lemma is_substring_sublist: "is_substring w s = sublist w s"
  by (induction s) (simp_all add: sublist_Cons_right)

lemma list_ex_substring:
  "list_ex (\<lambda>w. is_substring w s) ws = (\<exists>w \<in> set ws. sublist w s)"
  by (simp add: list_ex_iff is_substring_sublist)

lemma all_dropWhile: "(\<forall>x \<in> set (dropWhile P s). P x) = (\<forall>x \<in> set s. P x)"
  by (induction s) auto

lemma strip_empty_iff: "strip s = [] \<longleftrightarrow> (\<forall>c \<in> set s. isspace c)"
  by (simp add: strip_def dropWhile_eq_Nil_conv all_dropWhile)

lemma lower_Nil: "lower env [] = []"
  by (simp add: lower_def)

lemmas lower_eval = lower_def lower_ascii_def ascii_def

subsection \<open>Intent detection\<close>

text \<open>
  Claim C6. The confirm phrases are tested before the reject phrases: an utterance whose
  lower-cased text contains a confirm phrase and a reject phrase is classified
  \<open>confirm\<close>, by the telephone handler's classifier and by the voice assistant's.
\<close>

theorem confirm_checked_before_reject:
  "((\<exists>c \<in> set confirm_triggers. sublist c (lower env u)) \<and>
    (\<exists>r \<in> set reject_triggers. sublist r (lower env u))
      \<longrightarrow> handle_intents (lower env u) = ascii ''confirm'') \<and>
   ((\<exists>c \<in> set voice2_confirm_triggers. sublist c (lower env u)) \<and>
    (\<exists>r \<in> set voice2_reject_triggers. sublist r (lower env u))
      \<longrightarrow> voice2_handle_intents (lower env u) = ascii ''confirm'')"
  by (simp add: handle_intents_def voice2_handle_intents_def list_ex_substring)

text \<open>The utterance \<open>Not interested\<close> contains the confirm phrase \<open>interested\<close> and the
  reject phrase \<open>not interested\<close>; both classifiers answer \<open>confirm\<close>.\<close>

theorem confirm_checked_before_reject_witness:
  "(\<exists>c \<in> set confirm_triggers. sublist c (lower steady_services (ascii ''Not interested''))) \<and>
   (\<exists>r \<in> set reject_triggers. sublist r (lower steady_services (ascii ''Not interested''))) \<and>
   (\<exists>c \<in> set voice2_confirm_triggers. sublist c (lower steady_services (ascii ''Not interested''))) \<and>
   (\<exists>r \<in> set voice2_reject_triggers. sublist r (lower steady_services (ascii ''Not interested''))) \<and>
   handle_intents (lower steady_services (ascii ''Not interested'')) = ascii ''confirm'' \<and>
   voice2_handle_intents (lower steady_services (ascii ''Not interested'')) = ascii ''confirm''"
proof -
  have low: "lower steady_services (ascii ''Not interested'') = ascii ''not interested''"
    by (simp add: lower_eval)
  have c: "is_substring (ascii ''interested'') (ascii ''not interested'')"
    and r: "is_substring (ascii ''not interested'') (ascii ''not interested'')"
    by (simp_all add: ascii_def)
  have h1: "\<exists>c \<in> set confirm_triggers. sublist c (lower steady_services (ascii ''Not interested''))"
    and h3: "\<exists>c \<in> set voice2_confirm_triggers. sublist c (lower steady_services (ascii ''Not interested''))"
    using c by (simp_all add: low confirm_triggers_def voice2_confirm_triggers_def is_substring_sublist)
  have h2: "\<exists>r \<in> set reject_triggers. sublist r (lower steady_services (ascii ''Not interested''))"
    and h4: "\<exists>r \<in> set voice2_reject_triggers. sublist r (lower steady_services (ascii ''Not interested''))"
    using r by (simp_all add: low reject_triggers_def voice2_reject_triggers_def is_substring_sublist)
  note both = confirm_checked_before_reject [of steady_services "ascii ''Not interested''"]
  note webhook = both [THEN conjunct1, THEN mp, OF conjI [OF h1 h2]]
  note assistant = both [THEN conjunct2, THEN mp, OF conjI [OF h3 h4]]
  show ?thesis
    by (intro conjI) (rule h1 h2 h3 h4 webhook assistant)+
qed

subsection \<open>Turns of a call\<close>

lemma handle_intents_Nil: "handle_intents [] = ascii ''unknown''"
  by (simp add: handle_intents_def confirm_triggers_def reject_triggers_def)

lemma process_untracked:
  "sessions (CallSid req) = None \<Longrightarrow> process env rag sched sessions req log = (session_expired, sessions, log)"
  by (simp add: process_def)

lemma process_all_untracked:
  "sessions c = None \<Longrightarrow> \<forall>t \<in> set turns. CallSid (snd t) = c \<Longrightarrow>
   process_all env rag sessions turns log = (replicate (length turns) session_expired, sessions, log)"
proof (induction turns)
  case Nil
  then show ?case by simp
next
  case (Cons t turns)
  obtain sched req where t: "t = (sched, req)" by (cases t)
  with Cons.prems have "sessions (CallSid req) = None" by simp
  then have "process env rag sched sessions req log = (session_expired, sessions, log)"
    by (rule process_untracked)
  with Cons t show ?case by simp
qed

lemma process_confirm:
  assumes "sessions (CallSid req) = Some entry"
    and "SpeechResult req = Some u"
    and "handle_intents (lower env u) = ascii ''confirm''"
  shows "process env rag sched sessions req log =
     (if confirm_count (bot entry) + 1 \<ge> 2
      then (confirm_closing, sessions(CallSid req := None), log)
      else (keep_alive confirm_interim,
            sessions(CallSid req \<mapsto> entry\<lparr>bot := (bot entry)\<lparr>confirm_count := confirm_count (bot entry) + 1\<rparr>\<rparr>), log))"
proof -
  from assms(3) have "lower env u \<noteq> []" using handle_intents_Nil by auto
  with assms show ?thesis by (simp add: process_def Let_def)
qed

lemma process_reject:
  assumes "sessions (CallSid req) = Some entry"
    and "SpeechResult req = Some u"
    and "handle_intents (lower env u) = ascii ''reject''"
  shows "process env rag sched sessions req log =
     (if reject_count (bot entry) + 1 \<ge> 2
      then (reject_closing, sessions(CallSid req := None), log)
      else (keep_alive reject_interim,
            sessions(CallSid req \<mapsto> entry\<lparr>bot := (bot entry)\<lparr>reject_count := reject_count (bot entry) + 1\<rparr>\<rparr>), log))"
proof -
  from assms(3) have "lower env u \<noteq> []" using handle_intents_Nil by auto
  with assms show ?thesis by (simp add: process_def Let_def)
qed

lemma handle_intents_yes: "handle_intents (lower steady_services (ascii ''Yes'')) = ascii ''confirm''"
  by (simp add: handle_intents_def confirm_triggers_def lower_eval)

lemma handle_intents_stop: "handle_intents (lower steady_services (ascii ''Stop'')) = ascii ''reject''"
  by (simp add: handle_intents_def confirm_triggers_def reject_triggers_def lower_eval)

lemma after_call_start_tracked:
  "after_call_start (Some (ascii ''CA1'')) = Some \<lparr>bot = CallAssistant_init (Some (ascii ''CA1'')), start = 0\<rparr>"
  by (simp add: after_call_start_def voice_def call_start_def Let_def)

lemma after_first_yes_eq:
  "after_first_yes =
     after_call_start(Some (ascii ''CA1'') \<mapsto>
       \<lparr>bot = (CallAssistant_init (Some (ascii ''CA1'')))\<lparr>confirm_count := 1\<rparr>, start = 0\<rparr>)"
  using process_confirm [where sessions = after_call_start and req = "caller_says (ascii ''Yes'')"
      and entry = "\<lparr>bot = CallAssistant_init (Some (ascii ''CA1'')), start = 0\<rparr>" and u = "ascii ''Yes''"
      and env = steady_services and rag = sample_rag and sched = on_time and log = "[]"]
    after_call_start_tracked handle_intents_yes
  by (simp add: after_first_yes_def caller_says_def CallAssistant_init_def)

lemma second_yes_closes:
  "process steady_services sample_rag on_time after_first_yes (caller_says (ascii ''Yes'')) []
     = (confirm_closing, after_first_yes(Some (ascii ''CA1'') := None), [])"
  using process_confirm [where sessions = after_first_yes and req = "caller_says (ascii ''Yes'')"
      and entry = "\<lparr>bot = (CallAssistant_init (Some (ascii ''CA1'')))\<lparr>confirm_count := 1\<rparr>, start = 0\<rparr>"
      and u = "ascii ''Yes''"
      and env = steady_services and rag = sample_rag and sched = on_time and log = "[]"]
    handle_intents_yes
  by (simp add: after_first_yes_eq caller_says_def)

subsection \<open>An empty utterance\<close>

text \<open>
  Claim C10. A turn of a tracked call whose utterance is the empty string (or is absent, which
  the handler reads as the empty string) is answered with the fixed request to repeat, and
  nothing else changes: the session table is the one before the turn, so the counters and
  the \<open>finalized\<close> flag keep their values and the call stays tracked, and no call is made
  to the knowledge base or to the model.
\<close>

theorem empty_utterance_repeat:
  assumes "sessions (CallSid req) = Some entry"
    and "SpeechResult req = Some [] \<or> SpeechResult req = None"
  shows "process env rag sched sessions req log
           = ([Say (ascii ''Could you repeat that?'')], sessions, log)"
  using assms by (auto simp: process_def lower_Nil repeat_prompt_def)

text \<open>The caller of a call that has just started says nothing.\<close>

theorem empty_utterance_repeat_witness:
  "after_call_start (CallSid (caller_says [])) = Some \<lparr>bot = CallAssistant_init (Some (ascii ''CA1'')), start = 0\<rparr>
   \<and> SpeechResult (caller_says []) = Some []
   \<and> process steady_services sample_rag on_time after_call_start (caller_says []) []
       = ([Say (ascii ''Could you repeat that?'')], after_call_start, [])"
proof -
  have tracked: "after_call_start (CallSid (caller_says [])) = Some \<lparr>bot = CallAssistant_init (Some (ascii ''CA1'')), start = 0\<rparr>"
    by (simp add: caller_says_def after_call_start_tracked)
  have empty: "SpeechResult (caller_says []) = Some [] \<or> SpeechResult (caller_says []) = None"
    by (simp add: caller_says_def)
  from empty_utterance_repeat [where sessions = after_call_start and req = "caller_says []"
      and entry = "\<lparr>bot = CallAssistant_init (Some (ascii ''CA1'')), start = 0\<rparr>"
      and env = steady_services and rag = sample_rag and sched = on_time and log = "[]"]
    tracked empty
  show ?thesis by (simp add: caller_says_def)
qed

subsection \<open>The dialogue counters\<close>

text \<open>
  Claim C5. For a tracked session whose two counters are 0: two turns classified \<open>confirm\<close>
  end with the closing sentence and the hang-up, and the session is removed; a turn
  classified \<open>confirm\<close> followed by one classified \<open>reject\<close> ends with neither: both
  answers keep the call alive, and the session stays tracked with each counter at 1 and
  the rest of it unchanged.
\<close>

theorem dialogue_counters:
  assumes "sessions c = Some entry"
    and "confirm_count (bot entry) = 0"
    and "reject_count (bot entry) = 0"
    and "handle_intents (lower env u1) = ascii ''confirm''"
    and "handle_intents (lower env u2) = ascii ''confirm''"
    and "handle_intents (lower env u3) = ascii ''reject''"
  shows "process_all env rag sessions
           [(s1, \<lparr>CallSid = c, SpeechResult = Some u1\<rparr>), (s2, \<lparr>CallSid = c, SpeechResult = Some u2\<rparr>)] log
         = ([keep_alive (ascii ''Great! Let's explore what works best for you.''), confirm_closing],
            sessions(c := None), log)
       \<and> process_all env rag sessions
           [(s1, \<lparr>CallSid = c, SpeechResult = Some u1\<rparr>), (s3, \<lparr>CallSid = c, SpeechResult = Some u3\<rparr>)] log
         = ([keep_alive (ascii ''Great! Let's explore what works best for you.''),
             keep_alive (ascii ''I understand. Let me share one strategy that might change your perspective.'')],
            sessions(c \<mapsto> entry\<lparr>bot := (bot entry)\<lparr>confirm_count := 1, reject_count := 1\<rparr>\<rparr>), log)"
proof -
  let ?r1 = "\<lparr>CallSid = c, SpeechResult = Some u1\<rparr>"
  let ?e1 = "entry\<lparr>bot := (bot entry)\<lparr>confirm_count := 1\<rparr>\<rparr>"
  let ?S1 = "sessions(c \<mapsto> ?e1)"
  have step1: "process env rag s1 sessions ?r1 log = (keep_alive confirm_interim, ?S1, log)"
    using process_confirm [of sessions ?r1 entry u1 env rag s1 log] assms(1,2,4) by simp
  have step2: "process env rag s2 ?S1 \<lparr>CallSid = c, SpeechResult = Some u2\<rparr> log =
      (confirm_closing, sessions(c := None), log)"
    using process_confirm [of ?S1 "\<lparr>CallSid = c, SpeechResult = Some u2\<rparr>" ?e1 u2 env rag s2 log] assms(5)
    by simp
  have step3: "process env rag s3 ?S1 \<lparr>CallSid = c, SpeechResult = Some u3\<rparr> log =
      (keep_alive reject_interim,
       sessions(c \<mapsto> entry\<lparr>bot := (bot entry)\<lparr>confirm_count := 1, reject_count := 1\<rparr>\<rparr>), log)"
    using process_reject [of ?S1 "\<lparr>CallSid = c, SpeechResult = Some u3\<rparr>" ?e1 u3 env rag s3 log] assms(3,6)
    by simp
  show ?thesis by (simp add: step1 step2 step3 confirm_interim_def reject_interim_def)
qed

text \<open>A call that has just started, then \<open>Yes\<close> twice, or \<open>Yes\<close> and \<open>Stop\<close>.\<close>

theorem dialogue_counters_witness:
  "after_call_start (Some (ascii ''CA1'')) = Some \<lparr>bot = CallAssistant_init (Some (ascii ''CA1'')), start = 0\<rparr>
   \<and> confirm_count (CallAssistant_init (Some (ascii ''CA1''))) = 0
   \<and> reject_count (CallAssistant_init (Some (ascii ''CA1''))) = 0
   \<and> handle_intents (lower steady_services (ascii ''Yes'')) = ascii ''confirm''
   \<and> handle_intents (lower steady_services (ascii ''Stop'')) = ascii ''reject''
   \<and> process_all steady_services sample_rag after_call_start
        [(on_time, caller_says (ascii ''Yes'')), (on_time, caller_says (ascii ''Yes''))] []
      = ([keep_alive (ascii ''Great! Let's explore what works best for you.''), confirm_closing],
         after_call_start(Some (ascii ''CA1'') := None), [])
   \<and> process_all steady_services sample_rag after_call_start
        [(on_time, caller_says (ascii ''Yes'')), (on_time, caller_says (ascii ''Stop''))] []
      = ([keep_alive (ascii ''Great! Let's explore what works best for you.''),
          keep_alive (ascii ''I understand. Let me share one strategy that might change your perspective.'')],
         after_call_start(Some (ascii ''CA1'') \<mapsto>
           \<lparr>bot = (CallAssistant_init (Some (ascii ''CA1'')))\<lparr>confirm_count := 1, reject_count := 1\<rparr>, start = 0\<rparr>), [])"
proof -
  note tracked = after_call_start_tracked
  have c0: "confirm_count (bot \<lparr>bot = CallAssistant_init (Some (ascii ''CA1'')), start = 0::nat\<rparr>) = 0"
    and r0: "reject_count (bot \<lparr>bot = CallAssistant_init (Some (ascii ''CA1'')), start = 0::nat\<rparr>) = 0"
    by (simp_all add: CallAssistant_init_def)
  from dialogue_counters [where sessions = after_call_start and c = "Some (ascii ''CA1'')"
      and entry = "\<lparr>bot = CallAssistant_init (Some (ascii ''CA1'')), start = 0\<rparr>"
      and ?u1.0 = "ascii ''Yes''" and ?u2.0 = "ascii ''Yes''" and ?u3.0 = "ascii ''Stop''"
      and env = steady_services and rag = sample_rag
      and ?s1.0 = on_time and ?s2.0 = on_time and ?s3.0 = on_time and log = "[]"]
    tracked c0 r0 handle_intents_yes handle_intents_stop
  show ?thesis by (simp add: caller_says_def)
qed

subsection \<open>The end of a session\<close>

text \<open>
  Claim C9. When a turn ends a session, with the closing reply after the second \<open>confirm\<close>
  or the second \<open>reject\<close>, the call identifier is removed from the session table; every
  later turn for that identifier is answered with the session-expired reply (\<open>Session
  expired. Please call back.\<close> and a hang-up), the session table stays as it is, so no
  session is created again, and no call is made to the knowledge base or to the model.
\<close>

theorem finalized_session_expires:
  assumes "process env rag sched sessions req log = (resp, sessions', log')"
    and "resp = confirm_closing \<or> resp = reject_closing"
    and "\<forall>t \<in> set turns. CallSid (snd t) = CallSid req"
  shows "sessions' (CallSid req) = None
       \<and> process_all env rag sessions' turns log'
           = (replicate (length turns) session_expired, sessions', log')"
proof -
  have gone: "sessions' (CallSid req) = None"
    using assms(1,2)
    by (auto simp: process_def Let_def confirm_closing_def reject_closing_def
          session_expired_def keep_alive_def repeat_prompt_def
        split: option.splits if_splits prod.splits)
  from process_all_untracked [where sessions = sessions' and c = "CallSid req" and turns = turns]
    gone assms(3)
  show ?thesis by simp
qed

text \<open>After the second \<open>Yes\<close> the call is closed; two more turns of it are both answered
  with the session-expired reply.\<close>

theorem finalized_session_expires_witness:
  "process steady_services sample_rag on_time after_first_yes (caller_says (ascii ''Yes'')) []
     = (confirm_closing, after_first_yes(Some (ascii ''CA1'') := None), [])
   \<and> (after_first_yes(Some (ascii ''CA1'') := None)) (CallSid (caller_says (ascii ''Yes''))) = None
   \<and> process_all steady_services sample_rag (after_first_yes(Some (ascii ''CA1'') := None))
        [(on_time, caller_says (ascii ''Hello?'')), (on_time, caller_says (ascii ''Yes''))] []
      = ([session_expired, session_expired], after_first_yes(Some (ascii ''CA1'') := None), [])"
proof -
  have same: "\<forall>t \<in> set [(on_time, caller_says (ascii ''Hello?'')), (on_time, caller_says (ascii ''Yes''))].
      CallSid (snd t) = CallSid (caller_says (ascii ''Yes''))"
    by (simp add: caller_says_def)
  from finalized_session_expires [OF second_yes_closes _ same] second_yes_closes
  show ?thesis by simp
qed

subsection \<open>The start of a call\<close>

text \<open>
  Claim C1, as the specification states it, does not hold: \<open>voice\<close> has no test for a call
  identifier that is already tracked. A call that has counted one \<open>confirm\<close> and starts
  again has its session replaced: the stored counter is 0 again and the table differs
  from the one before.
\<close>

theorem voice_resets_session_counterexample:
  "after_first_yes (Some (ascii ''CA1''))
     = Some \<lparr>bot = (CallAssistant_init (Some (ascii ''CA1'')))\<lparr>confirm_count := 1\<rparr>, start = 0\<rparr>
   \<and> snd (voice after_first_yes call_start 5) (Some (ascii ''CA1''))
     = Some \<lparr>bot = CallAssistant_init (Some (ascii ''CA1'')), start = 5\<rparr>
   \<and> confirm_count (CallAssistant_init (Some (ascii ''CA1''))) = 0
   \<and> snd (voice after_first_yes call_start 5) \<noteq> after_first_yes"
proof -
  have a: "after_first_yes (Some (ascii ''CA1''))
     = Some \<lparr>bot = (CallAssistant_init (Some (ascii ''CA1'')))\<lparr>confirm_count := 1\<rparr>, start = 0\<rparr>"
    by (simp add: after_first_yes_eq)
  have b: "snd (voice after_first_yes call_start 5) (Some (ascii ''CA1''))
     = Some \<lparr>bot = CallAssistant_init (Some (ascii ''CA1'')), start = 5\<rparr>"
    by (simp add: voice_def call_start_def Let_def)
  have c: "confirm_count (CallAssistant_init (Some (ascii ''CA1''))) = 0"
    by (simp add: CallAssistant_init_def)
  have "snd (voice after_first_yes call_start 5) (Some (ascii ''CA1'')) \<noteq> after_first_yes (Some (ascii ''CA1''))"
    unfolding a b by simp
  then have d: "snd (voice after_first_yes call_start 5) \<noteq> after_first_yes"
    by auto
  from a b c d show ?thesis by simp
qed

text \<open>
  Claim C1, amended. The start of a call always stores a new session under the request's
  call identifier, whatever the table held for it before: the two counters are 0,
  \<open>finalized\<close> is false, the client is the fixed demonstration client, and the start time is
  the clock's reading; the sessions of all other identifiers are unchanged.
\<close>

theorem voice_installs_fresh_session:
  "snd (voice sessions req now)
     = sessions(CallSid req \<mapsto>
         \<lparr>bot = \<lparr>call_id = CallSid req, client_data = demo_client,
                 confirm_count = 0, reject_count = 0, finalized = False\<rparr>,
          start = now\<rparr>)"
  by (simp add: voice_def Let_def CallAssistant_init_def)

subsection \<open>The knowledge base\<close>

lemma set_join: "set (join sep xs) \<subseteq> set sep \<union> set (concat xs)"
  by (induction sep xs rule: join.induct) auto

lemma set_concat_join: "set (concat xs) \<subseteq> set (join sep xs)"
  by (induction sep xs rule: join.induct) auto

lemma isspace_newline: "\<forall>c \<in> set (ascii ''\<newline>\<newline>''). isspace c"
  by (simp add: ascii_def isspace_def whitespace_def)

lemma strip_context_empty:
  "strip (join (ascii ''\<newline>\<newline>'') xs) = [] \<longleftrightarrow> (\<forall>c \<in> set (concat xs). isspace c)"
proof
  assume "strip (join (ascii ''\<newline>\<newline>'') xs) = []"
  then have "\<forall>c \<in> set (join (ascii ''\<newline>\<newline>'') xs). isspace c" by (simp add: strip_empty_iff)
  with set_concat_join [of xs "ascii ''\<newline>\<newline>''"] show "\<forall>c \<in> set (concat xs). isspace c" by blast
next
  assume a: "\<forall>c \<in> set (concat xs). isspace c"
  have "\<forall>c \<in> set (join (ascii ''\<newline>\<newline>'') xs). isspace c"
  proof
    fix c assume "c \<in> set (join (ascii ''\<newline>\<newline>'') xs)"
    with set_join [of "ascii ''\<newline>\<newline>''" xs]
    have "c \<in> set (ascii ''\<newline>\<newline>'') \<or> c \<in> set (concat xs)" by blast
    with a isspace_newline show "isspace c" by blast
  qed
  then show "strip (join (ascii ''\<newline>\<newline>'') xs) = []" by (simp add: strip_empty_iff)
qed

lemma founder_query_company: "\<exists>kw \<in> set company_keywords. sublist kw (lower env founder_query)"
proof -
  have "list_ex (\<lambda>kw. is_substring kw (lower env founder_query)) company_keywords"
    by (simp add: founder_query_def company_keywords_def lower_eval)
  then show ?thesis by (simp add: list_ex_substring)
qed

lemma villa_query_general: "\<not> (\<exists>kw \<in> set company_keywords. sublist kw (lower env villa_query))"
proof -
  have "\<not> list_ex (\<lambda>kw. is_substring kw (lower env villa_query)) company_keywords"
    by (simp add: villa_query_def company_keywords_def lower_eval)
  then show ?thesis by (simp add: list_ex_substring)
qed

lemma generate_company_response_log:
  "snd (generate_company_response env self query log) = log
   \<or> snd (generate_company_response env self query log)
       = log @ [GenerateContent (company_prompt (company_profile self) query)]"
  by (simp add: generate_company_response_def Let_def)

lemma general_response_log:
  "take 1 (drop (length log) (snd (general_response env self query k log))) = [SimilaritySearch query k]"
  by (simp add: general_response_def Let_def split: sum.splits)

text \<open>
  Claim C8. On the general path, when the similarity search returns and the text of the
  retrieved chunks is empty or consists of white space only (every character is one that
  \<open>str.isspace\<close> accepts, the no-break space and the other Unicode spaces included), the
  query returns the fixed no-data sentence, and the calls made are the query and the
  search: the model is not called.
\<close>

theorem empty_context_fallback:
  assumes "\<not> (\<exists>kw \<in> set company_keywords. sublist kw (lower env query))"
    and "similarity_search env (vectorstore self) query k = Inr results"
    and "\<forall>c \<in> set (concat (map page_content results)). isspace c"
  shows "query_knowledge_base env self query k log
           = (Inr no_data_fallback, log @ [QueryKnowledgeBase query k, SimilaritySearch query k])"
  using assms
  by (simp add: query_knowledge_base_def general_response_def Let_def list_ex_substring
      strip_context_empty)

text \<open>The query about villas on the index whose chunks are blank: two spaces, a no-break
  space with an em space, and a line feed.\<close>

theorem empty_context_fallback_witness:
  "\<not> (\<exists>kw \<in> set company_keywords. sublist kw (lower blank_index_services villa_query))
   \<and> similarity_search blank_index_services (vectorstore sample_rag) villa_query 2 = Inr blank_chunks
   \<and> list_all isspace (concat (map page_content blank_chunks))
   \<and> query_knowledge_base blank_index_services sample_rag villa_query 2 []
       = (Inr no_data_fallback, [QueryKnowledgeBase villa_query 2, SimilaritySearch villa_query 2])"
proof -
  have found: "similarity_search blank_index_services (vectorstore sample_rag) villa_query 2 = Inr blank_chunks"
    by (simp add: blank_index_services_def)
  have blank: "\<forall>c \<in> set (concat (map page_content blank_chunks)). isspace c"
    by (simp add: blank_chunks_def ascii_def isspace_def whitespace_def)
  note fallback = empty_context_fallback [OF villa_query_general found blank, of "[]", unfolded append_Nil]
  have blank': "list_all isspace (concat (map page_content blank_chunks))"
    using blank by (simp add: list_all_iff)
  show ?thesis
    by (intro conjI) (rule villa_query_general found blank' fallback)+
qed

text \<open>
  Claim C7. Routing is one test of the lower-cased query against the company keywords. If
  a keyword occurs in it, the query is answered by the profile path: the result is the one
  of \<open>_generate_company_response\<close>, and no similarity search is made. Otherwise it is
  answered by the general path: the result is the one of the similarity search and what
  follows it, and the first thing the query does is that search.
\<close>

theorem query_routing:
  "((\<exists>kw \<in> set company_keywords. sublist kw (lower env query)) \<longrightarrow>
      query_knowledge_base env self query k log
        = generate_company_response env self query (log @ [QueryKnowledgeBase query k])
      \<and> SimilaritySearch query k \<notin> set (drop (length log) (snd (query_knowledge_base env self query k log))))
   \<and> (\<not> (\<exists>kw \<in> set company_keywords. sublist kw (lower env query)) \<longrightarrow>
      query_knowledge_base env self query k log
        = general_response env self query k (log @ [QueryKnowledgeBase query k])
      \<and> take 2 (drop (length log) (snd (query_knowledge_base env self query k log)))
        = [QueryKnowledgeBase query k, SimilaritySearch query k])"
proof (intro conjI impI)
  assume c: "\<exists>kw \<in> set company_keywords. sublist kw (lower env query)"
  then show eq: "query_knowledge_base env self query k log
        = generate_company_response env self query (log @ [QueryKnowledgeBase query k])"
    by (simp add: query_knowledge_base_def Let_def list_ex_substring)
  from generate_company_response_log [of env self query "log @ [QueryKnowledgeBase query k]"]
  show "SimilaritySearch query k \<notin> set (drop (length log) (snd (query_knowledge_base env self query k log)))"
    unfolding eq by auto
next
  assume g: "\<not> (\<exists>kw \<in> set company_keywords. sublist kw (lower env query))"
  then show eq: "query_knowledge_base env self query k log
        = general_response env self query k (log @ [QueryKnowledgeBase query k])"
    by (simp add: query_knowledge_base_def Let_def list_ex_substring)
  show "take 2 (drop (length log) (snd (query_knowledge_base env self query k log)))
        = [QueryKnowledgeBase query k, SimilaritySearch query k]"
    unfolding eq by (simp add: general_response_def Let_def split: sum.splits)
qed

text \<open>The question about the founder takes the profile path, the question about the
  rental yield of villas the general path.\<close>

theorem query_routing_witness:
  "(\<exists>kw \<in> set company_keywords. sublist kw (lower steady_services founder_query))
   \<and> query_knowledge_base steady_services sample_rag founder_query 2 []
       = generate_company_response steady_services sample_rag founder_query [QueryKnowledgeBase founder_query 2]
   \<and> SimilaritySearch founder_query 2 \<notin> set (snd (query_knowledge_base steady_services sample_rag founder_query 2 []))
   \<and> \<not> (\<exists>kw \<in> set company_keywords. sublist kw (lower steady_services villa_query))
   \<and> query_knowledge_base steady_services sample_rag villa_query 2 []
       = general_response steady_services sample_rag villa_query 2 [QueryKnowledgeBase villa_query 2]
   \<and> take 2 (snd (query_knowledge_base steady_services sample_rag villa_query 2 []))
       = [QueryKnowledgeBase villa_query 2, SimilaritySearch villa_query 2]"
proof -
  note founder = query_routing [of steady_services founder_query sample_rag 2 "[]",
      unfolded list.size drop_0 append_Nil]
  note villa = query_routing [of steady_services villa_query sample_rag 2 "[]",
      unfolded list.size drop_0 append_Nil]
  note profile = founder [THEN conjunct1, THEN mp, OF founder_query_company]
  note general = villa [THEN conjunct2, THEN mp, OF villa_query_general]
  show ?thesis
    by (intro conjI)
      (rule founder_query_company profile [THEN conjunct1] profile [THEN conjunct2]
         villa_query_general general [THEN conjunct1] general [THEN conjunct2])+
qed

subsection \<open>Errors of the model in the knowledge base\<close>

lemma sample_profile_not_blank: "strip (company_profile sample_rag) \<noteq> []"
  by (simp add: strip_empty_iff sample_rag_def ascii_def isspace_def whitespace_def)

lemma villa_context: "join (ascii ''\<newline>\<newline>'') (map page_content villa_chunks) = ascii ''Villa rents rose in 2023.''"
  by (simp add: villa_chunks_def)

lemma villa_context_not_blank: "strip (ascii ''Villa rents rose in 2023.'') \<noteq> []"
  by (simp add: strip_empty_iff ascii_def isspace_def whitespace_def)

text \<open>
  Claim C2, as the specification states it, does not hold: neither answer path of
  \<open>query_knowledge_base\<close> catches what the model raises. With a model that raises, the
  question about the founder (profile path) and the question about villas (general path)
  both end in the exception, not in a fallback sentence.
\<close>

theorem generation_error_counterexample:
  "fst (query_knowledge_base failing_model_services sample_rag founder_query 2 [])
     = Inl (Exception (ascii ''quota exceeded''))
   \<and> fst (query_knowledge_base failing_model_services sample_rag villa_query 2 [])
     = Inl (Exception (ascii ''quota exceeded''))"
proof -
  have lf: "list_ex (\<lambda>kw. is_substring kw (lower failing_model_services founder_query)) company_keywords"
    using founder_query_company by (simp add: list_ex_substring)
  have lv: "\<not> list_ex (\<lambda>kw. is_substring kw (lower failing_model_services villa_query)) company_keywords"
    using villa_query_general by (simp add: list_ex_substring)
  have a: "fst (query_knowledge_base failing_model_services sample_rag founder_query 2 [])
     = Inl (Exception (ascii ''quota exceeded''))"
    using lf sample_profile_not_blank
    by (simp add: query_knowledge_base_def generate_company_response_def Let_def failing_model_services_def)
  have b: "fst (query_knowledge_base failing_model_services sample_rag villa_query 2 [])
     = Inl (Exception (ascii ''quota exceeded''))"
    using lv villa_context_not_blank
    by (simp add: query_knowledge_base_def general_response_def Let_def failing_model_services_def
        villa_context)
  from a b show ?thesis by (rule conjI)
qed

text \<open>
  Claim C2, amended. On both answer paths an error raised by the model during the query
  leaves the query operation as that error, and no fallback sentence takes its place: on
  the profile path when the profile is not blank, on the general path when the search has
  returned and the context is not blank. The calls made are the query, the search on the
  general path, and the call of the model that raised.
\<close>

theorem generation_error_propagates:
  "((\<exists>kw \<in> set company_keywords. sublist kw (lower env query))
      \<and> strip (company_profile self) \<noteq> []
      \<and> generate_content env (log @ [QueryKnowledgeBase query k])
          (company_prompt (company_profile self) query) = Inl e
    \<longrightarrow> query_knowledge_base env self query k log
          = (Inl e, log @ [QueryKnowledgeBase query k,
                           GenerateContent (company_prompt (company_profile self) query)]))
   \<and> (\<not> (\<exists>kw \<in> set company_keywords. sublist kw (lower env query))
      \<and> similarity_search env (vectorstore self) query k = Inr results
      \<and> strip (join (ascii ''\<newline>\<newline>'') (map page_content results)) \<noteq> []
      \<and> generate_content env (log @ [QueryKnowledgeBase query k, SimilaritySearch query k])
          (market_prompt (join (ascii ''\<newline>\<newline>'') (map page_content results)) query) = Inl e
    \<longrightarrow> query_knowledge_base env self query k log
          = (Inl e, log @ [QueryKnowledgeBase query k, SimilaritySearch query k,
                           GenerateContent (market_prompt (join (ascii ''\<newline>\<newline>'') (map page_content results)) query)]))"
  by (simp add: query_knowledge_base_def generate_company_response_def general_response_def
      Let_def list_ex_substring)

text \<open>Both paths with the model that raises.\<close>

theorem generation_error_propagates_witness:
  "(\<exists>kw \<in> set company_keywords. sublist kw (lower failing_model_services founder_query))
   \<and> strip (company_profile sample_rag) \<noteq> []
   \<and> generate_content failing_model_services [QueryKnowledgeBase founder_query 2]
       (company_prompt (company_profile sample_rag) founder_query)
       = Inl (Exception (ascii ''quota exceeded''))
   \<and> query_knowledge_base failing_model_services sample_rag founder_query 2 []
       = (Inl (Exception (ascii ''quota exceeded'')),
          [QueryKnowledgeBase founder_query 2,
           GenerateContent (company_prompt (company_profile sample_rag) founder_query)])
   \<and> \<not> (\<exists>kw \<in> set company_keywords. sublist kw (lower failing_model_services villa_query))
   \<and> similarity_search failing_model_services (vectorstore sample_rag) villa_query 2 = Inr villa_chunks
   \<and> strip (join (ascii ''\<newline>\<newline>'') (map page_content villa_chunks)) \<noteq> []
   \<and> generate_content failing_model_services
       [QueryKnowledgeBase villa_query 2, SimilaritySearch villa_query 2]
       (market_prompt (join (ascii ''\<newline>\<newline>'') (map page_content villa_chunks)) villa_query)
       = Inl (Exception (ascii ''quota exceeded''))
   \<and> query_knowledge_base failing_model_services sample_rag villa_query 2 []
       = (Inl (Exception (ascii ''quota exceeded'')),
          [QueryKnowledgeBase villa_query 2, SimilaritySearch villa_query 2,
           GenerateContent (market_prompt (join (ascii ''\<newline>\<newline>'') (map page_content villa_chunks)) villa_query)])"
proof -
  have raises: "generate_content failing_model_services [QueryKnowledgeBase founder_query 2]
       (company_prompt (company_profile sample_rag) founder_query)
       = Inl (Exception (ascii ''quota exceeded''))"
    by (simp add: failing_model_services_def)
  have found: "similarity_search failing_model_services (vectorstore sample_rag) villa_query 2 = Inr villa_chunks"
    by (simp add: failing_model_services_def)
  have nonblank: "strip (join (ascii ''\<newline>\<newline>'') (map page_content villa_chunks)) \<noteq> []"
    using villa_context_not_blank by (simp add: villa_context)
  have raises': "generate_content failing_model_services
       [QueryKnowledgeBase villa_query 2, SimilaritySearch villa_query 2]
       (market_prompt (join (ascii ''\<newline>\<newline>'') (map page_content villa_chunks)) villa_query)
       = Inl (Exception (ascii ''quota exceeded''))"
    by (simp add: failing_model_services_def)
  note profile = generation_error_propagates [where query = founder_query and self = sample_rag
      and env = failing_model_services and e = "Exception (ascii ''quota exceeded'')" and k = 2 and log = "[]",
      unfolded append_Nil]
  note general = generation_error_propagates [where query = villa_query and self = sample_rag
      and env = failing_model_services and e = "Exception (ascii ''quota exceeded'')" and k = 2 and log = "[]"
      and results = villa_chunks, unfolded append_Nil]
  note res = profile [THEN conjunct1, THEN mp,
      OF conjI [OF founder_query_company conjI [OF sample_profile_not_blank raises]]]
  note res' = general [THEN conjunct2, THEN mp,
      OF conjI [OF villa_query_general conjI [OF found conjI [OF nonblank raises']]]]
  show ?thesis
    by (intro conjI)
      (rule founder_query_company sample_profile_not_blank raises res villa_query_general found
         nonblank raises' res')+
qed

subsection \<open>The reply to an unclear utterance\<close>

lemma process_unknown:
  assumes "sessions (CallSid req) = Some entry"
    and "SpeechResult req = Some u"
    and "lower env u \<noteq> []"
    and "handle_intents (lower env u) = ascii ''unknown''"
  shows "process env rag sched sessions req log
     = (case combine_rag_gemini env rag sched (bot entry) (lower env u) log of
          (reply, log') \<Rightarrow> (keep_alive reply, sessions, log'))"
  using assms by (simp add: process_def Let_def)

lemma combine_in_time:
  assumes "query_knowledge_base env rag u 2 log = (Inr knowledge, log1)"
    and "generate_response env b u log1 = (ai_task, log2)"
    and "rag_in_time sched" and "ai_in_time sched"
  shows "combine_rag_gemini env rag sched b u log = (ai_task @ ascii '' '' @ knowledge, log2)"
  using assms by (simp add: combine_rag_gemini_def future_result_def)

lemma combine_retry:
  assumes "query_knowledge_base env rag u 2 log = (rag_task, log1)"
    and "generate_response env b u log1 = (ai_task, log2)"
    and "\<not> rag_in_time sched \<or> \<not> ai_in_time sched \<or> rag_task = Inl err"
  shows "combine_rag_gemini env rag sched b u log = generate_response env b u log2"
  using assms by (cases rag_task) (auto simp: combine_rag_gemini_def future_result_def)

lemma lower_tell_me_more: "lower env (ascii ''Tell me more'') = ascii ''tell me more''"
  by (simp add: lower_eval)

lemma lower_lowered_tell_me_more: "lower env (ascii ''tell me more'') = ascii ''tell me more''"
  by (simp add: lower_eval)

lemma handle_intents_tell_me_more: "handle_intents (ascii ''tell me more'') = ascii ''unknown''"
  by (simp add: handle_intents_def confirm_triggers_def reject_triggers_def ascii_def)

lemma tell_me_more_general:
  "\<not> list_ex (\<lambda>kw. is_substring kw (ascii ''tell me more'')) company_keywords"
  by (simp add: company_keywords_def ascii_def)

lemma strip_Nil: "strip [] = []"
  by (simp add: strip_def)

lemma strip_prices: "strip (ascii ''Prices are rising. '') = ascii ''Prices are rising.''"
  by (simp add: strip_def ascii_def isspace_def whitespace_def)

lemma strip_tomorrow: "strip (ascii ''Shall we talk tomorrow?'') = ascii ''Shall we talk tomorrow?''"
  by (simp add: strip_def ascii_def isspace_def whitespace_def)

lemma tell_me_more_no_data:
  assumes "similarity_search env (vectorstore rag) (ascii ''tell me more'') 2 = Inr []"
  shows "query_knowledge_base env rag (ascii ''tell me more'') 2 []
     = (Inr no_data_fallback,
        [QueryKnowledgeBase (ascii ''tell me more'') 2, SimilaritySearch (ascii ''tell me more'') 2])"
  using assms tell_me_more_general
  by (simp add: query_knowledge_base_def general_response_def Let_def lower_lowered_tell_me_more
      strip_Nil)

lemma tell_me_more_raises:
  "query_knowledge_base failing_model_services sample_rag (ascii ''tell me more'') 2 []
     = (Inl (Exception (ascii ''quota exceeded'')),
        [QueryKnowledgeBase (ascii ''tell me more'') 2, SimilaritySearch (ascii ''tell me more'') 2,
         GenerateContent (market_prompt (ascii ''Villa rents rose in 2023.'') (ascii ''tell me more''))])"
proof -
  have "similarity_search failing_model_services (vectorstore sample_rag) (ascii ''tell me more'') 2
      = Inr villa_chunks"
    by (simp add: failing_model_services_def)
  moreover have "generate_content failing_model_services h p = Inl (Exception (ascii ''quota exceeded''))"
    for h p
    by (simp add: failing_model_services_def)
  ultimately show ?thesis
    using tell_me_more_general villa_context_not_blank
    by (simp add: query_knowledge_base_def general_response_def Let_def lower_lowered_tell_me_more
        villa_context)
qed

lemma steady_generate_response:
  "generate_response steady_services b u h
     = (ascii ''Prices are rising.'', h @ [GenerateContent (response_prompt (client_data b) u)])"
  by (simp add: generate_response_def Let_def steady_services_def strip_prices)

lemma failing_generate_response:
  "generate_response failing_model_services b u h
     = (advisor_fallback, h @ [GenerateContent (response_prompt (client_data b) u)])"
  by (simp add: generate_response_def Let_def failing_model_services_def)

lemma changing_generate_response:
  "generate_response changing_model_services b u h
     = (if list_ex is_generate_content h then ascii ''Shall we talk tomorrow?''
        else ascii ''Prices are rising.'',
        h @ [GenerateContent (response_prompt (client_data b) u)])"
  by (simp add: generate_response_def Let_def changing_model_services_def strip_prices strip_tomorrow)

lemma client_data_init: "client_data (CallAssistant_init cid) = demo_client"
  by (simp add: CallAssistant_init_def)

lemma tell_me_more_tracked:
  "after_call_start (CallSid (caller_says (ascii ''Tell me more'')))
     = Some \<lparr>bot = CallAssistant_init (Some (ascii ''CA1'')), start = 0\<rparr>"
  by (simp add: caller_says_def after_call_start_tracked)

lemma tell_me_more_said:
  "SpeechResult (caller_says (ascii ''Tell me more'')) = Some (ascii ''Tell me more'')"
  by (simp add: caller_says_def)

text \<open>
  Claim C3, as the specification states it, does not hold. When the knowledge query has
  returned its text in time and the wait for the conversational reply runs out, the reply
  is not the knowledge text: the handler calls \<open>generate_response\<close> once more and says
  what that call returns. Here the model is called twice, and the reply is its second
  answer.
\<close>

theorem generation_timeout_counterexample:
  "query_knowledge_base changing_model_services sample_rag (ascii ''tell me more'') 2 []
     = (Inr no_data_fallback,
        [QueryKnowledgeBase (ascii ''tell me more'') 2, SimilaritySearch (ascii ''tell me more'') 2])
   \<and> process changing_model_services sample_rag generation_late after_call_start
        (caller_says (ascii ''Tell me more'')) []
     = (keep_alive (ascii ''Shall we talk tomorrow?''), after_call_start,
        [QueryKnowledgeBase (ascii ''tell me more'') 2, SimilaritySearch (ascii ''tell me more'') 2,
         GenerateContent (response_prompt demo_client (ascii ''tell me more'')),
         GenerateContent (response_prompt demo_client (ascii ''tell me more''))])
   \<and> keep_alive (ascii ''Shall we talk tomorrow?'') \<noteq> keep_alive no_data_fallback"
proof -
  have found: "similarity_search changing_model_services (vectorstore sample_rag) (ascii ''tell me more'') 2
      = Inr []"
    by (simp add: changing_model_services_def)
  note knowledge = tell_me_more_no_data [OF found]
  let ?b = "CallAssistant_init (Some (ascii ''CA1''))"
  let ?log1 = "[QueryKnowledgeBase (ascii ''tell me more'') 2, SimilaritySearch (ascii ''tell me more'') 2]"
  let ?g = "GenerateContent (response_prompt demo_client (ascii ''tell me more''))"
  have first: "generate_response changing_model_services ?b (ascii ''tell me more'') ?log1
      = (ascii ''Prices are rising.'', ?log1 @ [?g])"
    by (simp add: changing_generate_response client_data_init)
  have late: "\<not> rag_in_time generation_late \<or> \<not> ai_in_time generation_late
      \<or> Inr no_data_fallback = Inl TimeoutError"
    by (simp add: generation_late_def)
  have again: "combine_rag_gemini changing_model_services sample_rag generation_late ?b
        (ascii ''tell me more'') []
      = (ascii ''Shall we talk tomorrow?'', ?log1 @ [?g, ?g])"
    using combine_retry [OF knowledge first late]
    by (simp add: changing_generate_response client_data_init)
  have reply: "process changing_model_services sample_rag generation_late after_call_start
        (caller_says (ascii ''Tell me more'')) []
     = (keep_alive (ascii ''Shall we talk tomorrow?''), after_call_start, ?log1 @ [?g, ?g])"
    using process_unknown [where sessions = after_call_start
        and req = "caller_says (ascii ''Tell me more'')"
        and entry = "\<lparr>bot = ?b, start = 0\<rparr>"
        and u = "ascii ''Tell me more''" and env = changing_model_services and rag = sample_rag
        and sched = generation_late and log = "[]"]
      tell_me_more_tracked tell_me_more_said handle_intents_tell_me_more again
    by (simp add: lower_tell_me_more)
  have differ: "keep_alive (ascii ''Shall we talk tomorrow?'') \<noteq> keep_alive no_data_fallback"
    by (simp add: keep_alive_def no_data_fallback_def)
  from knowledge reply differ show ?thesis by simp
qed

text \<open>
  Claim C3, amended. In a turn of a tracked call whose utterance is classified \<open>unknown\<close>,
  the knowledge query and a call of \<open>generate_response\<close> are started; the text of a call
  of \<open>generate_response\<close> is the stripped text of the model, or the fixed advisor sentence
  when the model raises. If the knowledge query returns a text and both waits end in
  time, the reply is the conversational text, one space, and the knowledge text. In every
  other case (the knowledge query raises, its wait runs out, or the wait for the
  conversational reply runs out) the reply is the text of one further call of
  \<open>generate_response\<close>, made after the two tasks, and the knowledge text is not part of
  it. In both cases the session table is unchanged and the reply is a text: no exception
  leaves the turn.
\<close>

theorem unknown_turn_reply:
  assumes "sessions (CallSid req) = Some entry"
    and "SpeechResult req = Some u"
    and "lower env u \<noteq> []"
    and "handle_intents (lower env u) = ascii ''unknown''"
    and "query_knowledge_base env rag (lower env u) 2 log = (rag_task, log1)"
    and "generate_response env (bot entry) (lower env u) log1 = (ai_task, log2)"
    and "generate_response env (bot entry) (lower env u) log2 = (retry, log3)"
  shows "(rag_in_time sched \<and> ai_in_time sched \<and> rag_task = Inr knowledge \<longrightarrow>
            process env rag sched sessions req log
              = (keep_alive (ai_task @ ascii '' '' @ knowledge), sessions, log2))
       \<and> (\<not> rag_in_time sched \<or> \<not> ai_in_time sched \<or> rag_task = Inl err \<longrightarrow>
            process env rag sched sessions req log = (keep_alive retry, sessions, log3))
       \<and> ai_task = (case generate_content env log1 (response_prompt (client_data (bot entry)) (lower env u)) of
                      Inr text \<Rightarrow> strip text
                    | Inl e \<Rightarrow> advisor_fallback)
       \<and> retry = (case generate_content env log2 (response_prompt (client_data (bot entry)) (lower env u)) of
                    Inr text \<Rightarrow> strip text
                  | Inl e \<Rightarrow> advisor_fallback)
       \<and> log3 = log1 @ [GenerateContent (response_prompt (client_data (bot entry)) (lower env u)),
                        GenerateContent (response_prompt (client_data (bot entry)) (lower env u))]"
proof (intro conjI impI)
  have unknown: "process env rag sched sessions req log
     = (case combine_rag_gemini env rag sched (bot entry) (lower env u) log of
          (reply, log') \<Rightarrow> (keep_alive reply, sessions, log'))"
    using assms(1-4) by (rule process_unknown)
  show "process env rag sched sessions req log
          = (keep_alive (ai_task @ ascii '' '' @ knowledge), sessions, log2)"
    if "rag_in_time sched \<and> ai_in_time sched \<and> rag_task = Inr knowledge"
    using that assms(5,6) by (simp add: unknown combine_in_time)
  show "process env rag sched sessions req log = (keep_alive retry, sessions, log3)"
    if "\<not> rag_in_time sched \<or> \<not> ai_in_time sched \<or> rag_task = Inl err"
    using combine_retry [OF assms(5,6) that] assms(7) by (simp add: unknown)
  show "ai_task = (case generate_content env log1 (response_prompt (client_data (bot entry)) (lower env u)) of
                      Inr text \<Rightarrow> strip text
                    | Inl e \<Rightarrow> advisor_fallback)"
    using assms(6) by (auto simp: generate_response_def Let_def)
  show "retry = (case generate_content env log2 (response_prompt (client_data (bot entry)) (lower env u)) of
                    Inr text \<Rightarrow> strip text
                  | Inl e \<Rightarrow> advisor_fallback)"
    using assms(7) by (auto simp: generate_response_def Let_def)
  show "log3 = log1 @ [GenerateContent (response_prompt (client_data (bot entry)) (lower env u)),
                        GenerateContent (response_prompt (client_data (bot entry)) (lower env u))]"
    using assms(6,7) by (auto simp: generate_response_def Let_def)
qed

text \<open>Both waits end in time with a model that answers: the reply is the model's sentence,
  a space, and the text of the knowledge base. With a model that raises, the knowledge
  query ends in the error, and the reply is the advisor sentence of the further call.\<close>

theorem unknown_turn_reply_witness:
  "after_call_start (CallSid (caller_says (ascii ''Tell me more'')))
     = Some \<lparr>bot = CallAssistant_init (Some (ascii ''CA1'')), start = 0\<rparr>
   \<and> SpeechResult (caller_says (ascii ''Tell me more'')) = Some (ascii ''Tell me more'')
   \<and> lower steady_services (ascii ''Tell me more'') \<noteq> []
   \<and> handle_intents (lower steady_services (ascii ''Tell me more'')) = ascii ''unknown''
   \<and> rag_in_time on_time \<and> ai_in_time on_time
   \<and> query_knowledge_base steady_services sample_rag (ascii ''tell me more'') 2 []
       = (Inr no_data_fallback,
          [QueryKnowledgeBase (ascii ''tell me more'') 2, SimilaritySearch (ascii ''tell me more'') 2])
   \<and> process steady_services sample_rag on_time after_call_start (caller_says (ascii ''Tell me more'')) []
       = (keep_alive (ascii ''Prices are rising.'' @ ascii '' '' @ no_data_fallback), after_call_start,
          [QueryKnowledgeBase (ascii ''tell me more'') 2, SimilaritySearch (ascii ''tell me more'') 2,
           GenerateContent (response_prompt demo_client (ascii ''tell me more''))])
   \<and> lower failing_model_services (ascii ''Tell me more'') \<noteq> []
   \<and> handle_intents (lower failing_model_services (ascii ''Tell me more'')) = ascii ''unknown''
   \<and> query_knowledge_base failing_model_services sample_rag (ascii ''tell me more'') 2 []
       = (Inl (Exception (ascii ''quota exceeded'')),
          [QueryKnowledgeBase (ascii ''tell me more'') 2, SimilaritySearch (ascii ''tell me more'') 2,
           GenerateContent (market_prompt (ascii ''Villa rents rose in 2023.'') (ascii ''tell me more''))])
   \<and> process failing_model_services sample_rag on_time after_call_start (caller_says (ascii ''Tell me more'')) []
       = (keep_alive advisor_fallback, after_call_start,
          [QueryKnowledgeBase (ascii ''tell me more'') 2, SimilaritySearch (ascii ''tell me more'') 2,
           GenerateContent (market_prompt (ascii ''Villa rents rose in 2023.'') (ascii ''tell me more'')),
           GenerateContent (response_prompt demo_client (ascii ''tell me more'')),
           GenerateContent (response_prompt demo_client (ascii ''tell me more''))])"
proof -
  let ?b = "CallAssistant_init (Some (ascii ''CA1''))"
  let ?u = "ascii ''tell me more''"
  let ?g = "GenerateContent (response_prompt demo_client ?u)"
  let ?log1 = "[QueryKnowledgeBase ?u 2, SimilaritySearch ?u 2]"
  let ?log1' = "[QueryKnowledgeBase ?u 2, SimilaritySearch ?u 2,
      GenerateContent (market_prompt (ascii ''Villa rents rose in 2023.'') ?u)]"
  have nonempty: "lower env (ascii ''Tell me more'') \<noteq> []" for env :: "unit services"
    by (simp add: lower_tell_me_more)
  have unknown: "handle_intents (lower env (ascii ''Tell me more'')) = ascii ''unknown''"
    for env :: "unit services"
    by (simp add: lower_tell_me_more handle_intents_tell_me_more)
  have in_time: "rag_in_time on_time \<and> ai_in_time on_time"
    by (simp add: on_time_def)
  have found: "similarity_search steady_services (vectorstore sample_rag) ?u 2 = Inr []"
    by (simp add: steady_services_def)
  note knowledge = tell_me_more_no_data [OF found]
  have q: "query_knowledge_base steady_services sample_rag (lower steady_services (ascii ''Tell me more'')) 2 []
      = (Inr no_data_fallback, ?log1)"
    using knowledge by (simp add: lower_tell_me_more)
  have g1: "generate_response steady_services (bot \<lparr>bot = ?b, start = 0::nat\<rparr>)
        (lower steady_services (ascii ''Tell me more'')) ?log1
      = (ascii ''Prices are rising.'', ?log1 @ [?g])"
    by (simp add: steady_generate_response client_data_init lower_tell_me_more)
  have g2: "generate_response steady_services (bot \<lparr>bot = ?b, start = 0::nat\<rparr>)
        (lower steady_services (ascii ''Tell me more'')) (?log1 @ [?g])
      = (ascii ''Prices are rising.'', ?log1 @ [?g, ?g])"
    by (simp add: steady_generate_response client_data_init lower_tell_me_more)
  note answered = unknown_turn_reply [where sessions = after_call_start
      and req = "caller_says (ascii ''Tell me more'')"
      and entry = "\<lparr>bot = ?b, start = 0\<rparr>" and u = "ascii ''Tell me more''"
      and env = steady_services and rag = sample_rag and sched = on_time and log = "[]"
      and knowledge = no_data_fallback,
      OF tell_me_more_tracked tell_me_more_said nonempty unknown q g1 g2,
      THEN conjunct1, THEN mp, OF conjI [OF in_time [THEN conjunct1] conjI [OF in_time [THEN conjunct2] refl]]]
  have joined: "process steady_services sample_rag on_time after_call_start
        (caller_says (ascii ''Tell me more'')) []
       = (keep_alive (ascii ''Prices are rising.'' @ ascii '' '' @ no_data_fallback), after_call_start,
          [QueryKnowledgeBase ?u 2, SimilaritySearch ?u 2, ?g])"
    using answered by simp
  note raised = tell_me_more_raises
  have q': "query_knowledge_base failing_model_services sample_rag
        (lower failing_model_services (ascii ''Tell me more'')) 2 []
      = (Inl (Exception (ascii ''quota exceeded'')), ?log1')"
    using raised by (simp add: lower_tell_me_more)
  have g1': "generate_response failing_model_services (bot \<lparr>bot = ?b, start = 0::nat\<rparr>)
        (lower failing_model_services (ascii ''Tell me more'')) ?log1'
      = (advisor_fallback, ?log1' @ [?g])"
    by (simp add: failing_generate_response client_data_init lower_tell_me_more)
  have g2': "generate_response failing_model_services (bot \<lparr>bot = ?b, start = 0::nat\<rparr>)
        (lower failing_model_services (ascii ''Tell me more'')) (?log1' @ [?g])
      = (advisor_fallback, ?log1' @ [?g, ?g])"
    by (simp add: failing_generate_response client_data_init lower_tell_me_more)
  note failed = unknown_turn_reply [where sessions = after_call_start
      and req = "caller_says (ascii ''Tell me more'')"
      and entry = "\<lparr>bot = ?b, start = 0\<rparr>" and u = "ascii ''Tell me more''"
      and env = failing_model_services and rag = sample_rag and sched = on_time and log = "[]"
      and err = "Exception (ascii ''quota exceeded'')",
      OF tell_me_more_tracked tell_me_more_said nonempty unknown q' g1' g2',
      THEN conjunct2, THEN conjunct1, THEN mp, OF disjI2 [OF disjI2 [OF refl]]]
  have escalated: "process failing_model_services sample_rag on_time after_call_start
        (caller_says (ascii ''Tell me more'')) []
       = (keep_alive advisor_fallback, after_call_start,
          [QueryKnowledgeBase ?u 2, SimilaritySearch ?u 2,
           GenerateContent (market_prompt (ascii ''Villa rents rose in 2023.'') ?u), ?g, ?g])"
    using failed by simp
  show ?thesis
    by (intro conjI)
      (rule tell_me_more_tracked tell_me_more_said nonempty unknown in_time [THEN conjunct1]
         in_time [THEN conjunct2] knowledge joined raised escalated)+
qed

subsection \<open>Setting up the index\<close>

text \<open>
  Claim C4, as the specification states it, does not hold: when the index directory exists
  and cannot be loaded, the error of the load is the result; nothing is built and nothing
  is saved.
\<close>

theorem corrupt_index_counterexample:
  "corrupt_index_fs INDEX_DIR = Some (ascii ''not an index'')
   \<and> load_local sample_storage (ascii ''not an index'') = Inl (Exception (ascii ''corrupt index''))
   \<and> initialize_vectorstore sample_storage corrupt_index_fs []
       = (Inl (Exception (ascii ''corrupt index'')), corrupt_index_fs, [LoadLocal (ascii ''faiss_index'')])"
  by (simp add: initialize_vectorstore_def corrupt_index_fs_def INDEX_DIR_def sample_storage_def)

text \<open>
  Claim C4, amended. If the index directory exists, the index is loaded from it and the
  result of the load is the result of the set-up, an error included: the documents are
  not read, nothing is embedded and nothing is saved. If it does not exist, the current
  documents are split into chunks, the index is built from the chunks and saved under
  the index directory; the built index is the result when the three steps succeed, with
  the file system the save leaves. An error of the splitter, of the build or of the save
  is the result of the set-up: after an error of the splitter nothing is built, after an
  error of the build nothing is saved.
\<close>

theorem initialize_vectorstore_load_or_build:
  "(fs INDEX_DIR = Some f \<longrightarrow>
      initialize_vectorstore st fs log = (load_local st f, fs, log @ [LoadLocal INDEX_DIR]))
   \<and> (fs INDEX_DIR = None
        \<and> split_documents st (load_all_documents st fs) = Inr chunks
        \<and> from_texts st (map page_content chunks) (map metadata chunks) = Inr vs
        \<and> save_local st vs INDEX_DIR fs = (Inr (), fs') \<longrightarrow>
      initialize_vectorstore st fs log
        = (Inr vs, fs', log @ [FromTexts (map page_content chunks), SaveLocal INDEX_DIR]))
   \<and> (fs INDEX_DIR = None
        \<and> split_documents st (load_all_documents st fs) = Inl e \<longrightarrow>
      initialize_vectorstore st fs log = (Inl e, fs, log))
   \<and> (fs INDEX_DIR = None
        \<and> split_documents st (load_all_documents st fs) = Inr chunks
        \<and> from_texts st (map page_content chunks) (map metadata chunks) = Inl e \<longrightarrow>
      initialize_vectorstore st fs log = (Inl e, fs, log @ [FromTexts (map page_content chunks)]))
   \<and> (fs INDEX_DIR = None
        \<and> split_documents st (load_all_documents st fs) = Inr chunks
        \<and> from_texts st (map page_content chunks) (map metadata chunks) = Inr vs
        \<and> save_local st vs INDEX_DIR fs = (Inl e, fs') \<longrightarrow>
      initialize_vectorstore st fs log
        = (Inl e, fs', log @ [FromTexts (map page_content chunks), SaveLocal INDEX_DIR]))"
  by (simp add: initialize_vectorstore_def Let_def)

lemma no_index_documents:
  assumes "TextLoader st = TextLoader sample_storage"
  shows "load_all_documents st no_index_fs
     = [\<lparr>page_content = ascii ''RealEstateCo was founded in 2010.'', metadata = []\<rparr>]"
  using assms
  by (simp add: load_all_documents_def DATA_FILES_csv_def DATA_FILES_txt_def no_index_fs_def
      sample_storage_def)

text \<open>A saved index is loaded. Without an index directory the index is built from the one
  document there is and saved; when the splitter, the embedding or the save raises, the
  set-up ends in that error.\<close>

theorem initialize_vectorstore_load_or_build_witness:
  "saved_index_fs INDEX_DIR = Some (ascii ''saved index'')
   \<and> initialize_vectorstore sample_storage saved_index_fs []
       = (Inr [ascii ''stored chunk''], saved_index_fs, [LoadLocal INDEX_DIR])
   \<and> no_index_fs INDEX_DIR = None
   \<and> initialize_vectorstore sample_storage no_index_fs []
       = (Inr [ascii ''RealEstateCo was founded in 2010.''], saved_index_fs,
          [FromTexts [ascii ''RealEstateCo was founded in 2010.''], SaveLocal INDEX_DIR])
   \<and> initialize_vectorstore failing_splitter_storage no_index_fs []
       = (Inl (Exception (ascii ''cannot split'')), no_index_fs, [])
   \<and> initialize_vectorstore failing_embedding_storage no_index_fs []
       = (Inl (Exception (ascii ''embedding quota exceeded'')), no_index_fs,
          [FromTexts [ascii ''RealEstateCo was founded in 2010.'']])
   \<and> initialize_vectorstore full_disk_storage no_index_fs []
       = (Inl (Exception (ascii ''disk full'')), no_index_fs,
          [FromTexts [ascii ''RealEstateCo was founded in 2010.''], SaveLocal INDEX_DIR])"
proof -
  let ?doc = "\<lparr>page_content = ascii ''RealEstateCo was founded in 2010.'', metadata = []\<rparr>"
  let ?text = "ascii ''RealEstateCo was founded in 2010.''"
  have present: "saved_index_fs INDEX_DIR = Some (ascii ''saved index'')"
    by (simp add: saved_index_fs_def INDEX_DIR_def)
  have absent: "no_index_fs INDEX_DIR = None"
    by (simp add: no_index_fs_def INDEX_DIR_def)
  have docs: "load_all_documents sample_storage no_index_fs = [?doc]"
    by (simp add: no_index_documents)
  have docs_s: "load_all_documents failing_splitter_storage no_index_fs = [?doc]"
    by (simp add: no_index_documents failing_splitter_storage_def)
  have docs_e: "load_all_documents failing_embedding_storage no_index_fs = [?doc]"
    by (simp add: no_index_documents failing_embedding_storage_def)
  have docs_d: "load_all_documents full_disk_storage no_index_fs = [?doc]"
    by (simp add: no_index_documents full_disk_storage_def)
  have split: "split_documents sample_storage (load_all_documents sample_storage no_index_fs) = Inr [?doc]"
    by (simp add: docs) (simp add: sample_storage_def)
  have built: "from_texts sample_storage (map page_content [?doc]) (map metadata [?doc]) = Inr [?text]"
    by (simp add: sample_storage_def)
  have saved: "save_local sample_storage [?text] INDEX_DIR no_index_fs = (Inr (), saved_index_fs)"
    by (simp add: sample_storage_def saved_index_fs_def INDEX_DIR_def)
  have split_s: "split_documents failing_splitter_storage (load_all_documents failing_splitter_storage no_index_fs)
      = Inl (Exception (ascii ''cannot split''))"
    by (simp add: failing_splitter_storage_def)
  have split_e: "split_documents failing_embedding_storage (load_all_documents failing_embedding_storage no_index_fs)
      = Inr [?doc]"
    by (simp add: docs_e) (simp add: failing_embedding_storage_def sample_storage_def)
  have built_e: "from_texts failing_embedding_storage (map page_content [?doc]) (map metadata [?doc])
      = Inl (Exception (ascii ''embedding quota exceeded''))"
    by (simp add: failing_embedding_storage_def)
  have split_d: "split_documents full_disk_storage (load_all_documents full_disk_storage no_index_fs)
      = Inr [?doc]"
    by (simp add: docs_d) (simp add: full_disk_storage_def sample_storage_def)
  have built_d: "from_texts full_disk_storage (map page_content [?doc]) (map metadata [?doc]) = Inr [?text]"
    by (simp add: full_disk_storage_def sample_storage_def)
  have saved_d: "save_local full_disk_storage [?text] INDEX_DIR no_index_fs
      = (Inl (Exception (ascii ''disk full'')), no_index_fs)"
    by (simp add: full_disk_storage_def)
  note load = initialize_vectorstore_load_or_build [where fs = saved_index_fs
      and f = "ascii ''saved index''" and st = sample_storage and log = "[]",
      THEN conjunct1, THEN mp, OF present]
  note build = initialize_vectorstore_load_or_build [where fs = no_index_fs
      and st = sample_storage and log = "[]" and chunks = "[?doc]" and vs = "[?text]"
      and fs' = saved_index_fs,
      THEN conjunct2, THEN conjunct1, THEN mp,
      OF conjI [OF absent conjI [OF split conjI [OF built saved]]]]
  note no_split = initialize_vectorstore_load_or_build [where fs = no_index_fs
      and st = failing_splitter_storage and log = "[]" and e = "Exception (ascii ''cannot split'')",
      THEN conjunct2, THEN conjunct2, THEN conjunct1, THEN mp, OF conjI [OF absent split_s]]
  note no_build = initialize_vectorstore_load_or_build [where fs = no_index_fs
      and st = failing_embedding_storage and log = "[]" and chunks = "[?doc]"
      and e = "Exception (ascii ''embedding quota exceeded'')",
      THEN conjunct2, THEN conjunct2, THEN conjunct2, THEN conjunct1, THEN mp,
      OF conjI [OF absent conjI [OF split_e built_e]]]
  note no_save = initialize_vectorstore_load_or_build [where fs = no_index_fs
      and st = full_disk_storage and log = "[]" and chunks = "[?doc]" and vs = "[?text]"
      and fs' = no_index_fs and e = "Exception (ascii ''disk full'')",
      THEN conjunct2, THEN conjunct2, THEN conjunct2, THEN conjunct2, THEN mp,
      OF conjI [OF absent conjI [OF split_d conjI [OF built_d saved_d]]]]
  have a: "initialize_vectorstore sample_storage saved_index_fs []
       = (Inr [ascii ''stored chunk''], saved_index_fs, [LoadLocal INDEX_DIR])"
    using load by (simp add: sample_storage_def)
  have b: "initialize_vectorstore sample_storage no_index_fs []
       = (Inr [?text], saved_index_fs, [FromTexts [?text], SaveLocal INDEX_DIR])"
    using build by simp
  have c: "initialize_vectorstore failing_splitter_storage no_index_fs []
       = (Inl (Exception (ascii ''cannot split'')), no_index_fs, [])"
    using no_split by simp
  have d: "initialize_vectorstore failing_embedding_storage no_index_fs []
       = (Inl (Exception (ascii ''embedding quota exceeded'')), no_index_fs, [FromTexts [?text]])"
    using no_build by simp
  have e: "initialize_vectorstore full_disk_storage no_index_fs []
       = (Inl (Exception (ascii ''disk full'')), no_index_fs, [FromTexts [?text], SaveLocal INDEX_DIR])"
    using no_save by simp
  show ?thesis
    by (intro conjI) (rule present a absent b c d e)+
qed

end
